theory Spec2Isabelle
  imports Complex_Main "HOL-Library.Monad_Syntax"
begin

section \<open>JavaScript values\<close>

text \<open>
  The service reads JSON from the store, so every function of the repository works on
  dynamically typed values. A string is its sequence of UTF-16 code units (each below
  65536); \<open>js\<close> embeds an ASCII literal of the source.
\<close>

type_synonym jsstr = "nat list"

definition js :: "string \<Rightarrow> jsstr" where
  "js s = map of_char s"

text \<open>
  A number is NaN, an infinity or a finite double. The code only tests numbers for
  truthiness and compares them with \<open><\<close>, both of which agree with the real value of
  a finite double, so a finite number is modelled by its real value.
\<close>

datatype jsnum = NaN | NegInfinity | Num real | PosInfinity

text \<open>
  \<open>JBuiltin k\<close> stands for the member \<open>k\<close> that a plain object inherits from
  \<open>Object.prototype\<close> (a function, or the prototype object itself for \<open>__proto__\<close>).
\<close>

datatype jsval =
    JUndefined
  | JNull
  | JBool bool
  | JNum jsnum
  | JStr jsstr
  | JArr "jsval list"
  | JObj "(jsstr \<times> jsval) list"
  | JBuiltin jsstr

text \<open>An object literal of the source, with its keys in order.\<close>

definition obj :: "(string \<times> jsval) list \<Rightarrow> jsval" where
  "obj kvs = JObj (map (\<lambda>(k, v). (js k, v)) kvs)"

text \<open>
  What the platform does and the repository does not define: \<open>parseFloat\<close> on a string,
  the conversion of a number to a string, and \<open>JSON.parse\<close> (\<open>None\<close> is its
  SyntaxError). They are parameters of the model.
\<close>

record platform =
  parseFloatStr :: "jsstr \<Rightarrow> jsnum"
  numberToString :: "jsnum \<Rightarrow> jsstr"
  jsonParse :: "jsstr \<Rightarrow> jsval option"

fun truthy :: "jsval \<Rightarrow> bool" where
  "truthy JUndefined = False"
| "truthy JNull = False"
| "truthy (JBool b) = b"
| "truthy (JNum n) = (n \<noteq> NaN \<and> n \<noteq> Num 0)"
| "truthy (JStr s) = (s \<noteq> [])"
| "truthy (JArr xs) = True"
| "truthy (JObj kvs) = True"
| "truthy (JBuiltin k) = True"

text \<open>\<open>a || b\<close>\<close>

definition orElse :: "jsval \<Rightarrow> jsval \<Rightarrow> jsval" where
  "orElse a b = (if truthy a then a else b)"

text \<open>\<open>typeof v === 'object'\<close>\<close>

fun typeofObject :: "jsval \<Rightarrow> bool" where
  "typeofObject JNull = True"
| "typeofObject (JArr xs) = True"
| "typeofObject (JObj kvs) = True"
| "typeofObject (JBuiltin k) = (k = js ''__proto__'')"
| "typeofObject v = False"

fun isArray :: "jsval \<Rightarrow> bool" where
  "isArray (JArr xs) = True"
| "isArray v = False"

definition objectPrototypeKeys :: "jsstr list" where
  "objectPrototypeKeys = map js
     [''constructor'', ''__defineGetter__'', ''__defineSetter__'', ''hasOwnProperty'',
      ''__lookupGetter__'', ''__lookupSetter__'', ''isPrototypeOf'',
      ''propertyIsEnumerable'', ''toString'', ''valueOf'', ''__proto__'',
      ''toLocaleString'']"

text \<open>
  Reading a property. \<open>None\<close> is the TypeError of reading a property of \<open>undefined\<close> or
  \<open>null\<close>. An object answers with its own property, else with what it inherits from
  \<open>Object.prototype\<close>, else with \<open>undefined\<close>. On arrays and primitives the source
  reads only \<open>length\<close> and names that no prototype defines.
\<close>

fun getProp :: "jsval \<Rightarrow> jsstr \<Rightarrow> jsval option" where
  "getProp JUndefined k = None"
| "getProp JNull k = None"
| "getProp (JObj kvs) k =
     Some (case map_of kvs k of
             Some v \<Rightarrow> v
           | None \<Rightarrow> if k \<in> set objectPrototypeKeys then JBuiltin k else JUndefined)"
| "getProp (JArr xs) k =
     Some (if k = js ''length'' then JNum (Num (real (length xs))) else JUndefined)"
| "getProp (JStr s) k =
     Some (if k = js ''length'' then JNum (Num (real (length s))) else JUndefined)"
| "getProp v k = Some JUndefined"

text \<open>\<open>v.k\<close> for an identifier \<open>k\<close> of the source.\<close>

definition dot :: "jsval \<Rightarrow> string \<Rightarrow> jsval option" where
  "dot v k = getProp v (js k)"

fun joinComma :: "jsstr list \<Rightarrow> jsstr" where
  "joinComma [] = []"
| "joinComma [x] = x"
| "joinComma (x # xs) = x @ [0x2C] @ joinComma xs"

text \<open>
  The conversion of a value to a string, as a template literal, a computed property key
  and \<open>parseFloat\<close> apply it. \<open>None\<close> is the TypeError "Cannot convert object to
  primitive value": an object parsed from JSON that has an own \<open>toString\<close> entry hides
  the inherited method with something that cannot be called. An array joins its
  elements with commas, \<open>null\<close> and \<open>undefined\<close> elements giving the empty string.
\<close>

fun toStringJ :: "platform \<Rightarrow> jsval \<Rightarrow> jsstr option" where
  "toStringJ P JUndefined = Some (js ''undefined'')"
| "toStringJ P JNull = Some (js ''null'')"
| "toStringJ P (JBool b) = Some (if b then js ''true'' else js ''false'')"
| "toStringJ P (JNum n) = Some (numberToString P n)"
| "toStringJ P (JStr s) = Some s"
| "toStringJ P (JArr xs) =
     map_option joinComma
       (those (map (\<lambda>x. if x = JNull \<or> x = JUndefined then Some [] else toStringJ P x) xs))"
| "toStringJ P (JObj kvs) =
     (if map_of kvs (js ''toString'') \<noteq> None then None else Some (js ''[object Object]''))"
| "toStringJ P (JBuiltin k) =
     Some (if k = js ''__proto__'' then js ''[object Object]''
           else js ''function '' @ (if k = js ''constructor'' then js ''Object'' else k)
                @ js ''() { [native code] }'')"

section \<open>SensorProcessor\<close>

subsection \<open>Legacy text decoding\<close>

definition isHexDigit :: "nat \<Rightarrow> bool" where
  "isHexDigit c = ((48 \<le> c \<and> c \<le> 57) \<or> (65 \<le> c \<and> c \<le> 70) \<or> (97 \<le> c \<and> c \<le> 102))"

definition hexValue :: "nat \<Rightarrow> nat" where
  "hexValue c = (if c \<le> 57 then c - 48 else if c \<le> 70 then c - 55 else c - 87)"

text \<open>The pattern \<open>/\\x[0-9a-fA-F]{2}/\<close> at the head of a string: a backslash, an x, two hex digits.\<close>

fun escapeAtHead :: "jsstr \<Rightarrow> bool" where
  "escapeAtHead (c1 # c2 # c3 # c4 # rest) =
     (c1 = 0x5C \<and> c2 = 0x78 \<and> isHexDigit c3 \<and> isHexDigit c4)"
| "escapeAtHead s = False"

text \<open>\<open>/\\x[0-9a-fA-F]{2}/.test(s)\<close>\<close>

fun hasEscape :: "jsstr \<Rightarrow> bool" where
  "hasEscape [] = False"
| "hasEscape (c # cs) = (escapeAtHead (c # cs) \<or> hasEscape cs)"

text \<open>
  \<open>s.replace(/\\x([0-9a-fA-F]{2})/g, (match, hex) => String.fromCharCode(parseInt(hex, 16)))\<close>:
  one pass from the left over non-overlapping matches.
\<close>

fun replaceEscapes :: "jsstr \<Rightarrow> jsstr" where
  "replaceEscapes (c1 # c2 # c3 # c4 # rest) =
     (if c1 = 0x5C \<and> c2 = 0x78 \<and> isHexDigit c3 \<and> isHexDigit c4
      then (hexValue c3 * 16 + hexValue c4) # replaceEscapes rest
      else c1 # replaceEscapes (c2 # c3 # c4 # rest))"
| "replaceEscapes s = s"

text \<open>\<open>Buffer.from(s, 'latin1')\<close> keeps the low byte of every code unit.\<close>

definition latin1 :: "jsstr \<Rightarrow> nat list" where
  "latin1 s = map (\<lambda>c. c mod 256) s"

text \<open>A code point as UTF-16 code units.\<close>

definition utf16 :: "nat \<Rightarrow> jsstr" where
  "utf16 cp = (if cp < 0x10000 then [cp]
               else [0xD800 + (cp - 0x10000) div 0x400, 0xDC00 + (cp - 0x10000) mod 0x400])"

text \<open>
  \<open>buffer.toString('utf8')\<close>, the platform's UTF-8 decoder: every maximal ill-formed
  byte sequence becomes U+FFFD and decoding goes on behind it.
\<close>

fun utf8Decode :: "nat list \<Rightarrow> jsstr" where
  "utf8Decode [] = []"
| "utf8Decode (b # bs) =
     (if b < 0x80 then b # utf8Decode bs
      else if 0xC2 \<le> b \<and> b \<le> 0xDF then
        (case bs of
           [] \<Rightarrow> [0xFFFD]
         | c1 # r1 \<Rightarrow>
             if 0x80 \<le> c1 \<and> c1 \<le> 0xBF
             then ((b mod 32) * 64 + c1 mod 64) # utf8Decode r1
             else 0xFFFD # utf8Decode bs)
      else if 0xE0 \<le> b \<and> b \<le> 0xEF then
        (case bs of
           [] \<Rightarrow> [0xFFFD]
         | c1 # r1 \<Rightarrow>
             if \<not> ((if b = 0xE0 then 0xA0 else 0x80) \<le> c1
                  \<and> c1 \<le> (if b = 0xED then 0x9F else 0xBF))
             then 0xFFFD # utf8Decode bs
             else (case r1 of
                     [] \<Rightarrow> [0xFFFD]
                   | c2 # r2 \<Rightarrow>
                       if 0x80 \<le> c2 \<and> c2 \<le> 0xBF
                       then ((b mod 16) * 4096 + (c1 mod 64) * 64 + c2 mod 64) # utf8Decode r2
                       else 0xFFFD # utf8Decode r1))
      else if 0xF0 \<le> b \<and> b \<le> 0xF4 then
        (case bs of
           [] \<Rightarrow> [0xFFFD]
         | c1 # r1 \<Rightarrow>
             if \<not> ((if b = 0xF0 then 0x90 else 0x80) \<le> c1
                  \<and> c1 \<le> (if b = 0xF4 then 0x8F else 0xBF))
             then 0xFFFD # utf8Decode bs
             else (case r1 of
                     [] \<Rightarrow> [0xFFFD]
                   | c2 # r2 \<Rightarrow>
                       if \<not> (0x80 \<le> c2 \<and> c2 \<le> 0xBF)
                       then 0xFFFD # utf8Decode r1
                       else (case r2 of
                               [] \<Rightarrow> [0xFFFD]
                             | c3 # r3 \<Rightarrow>
                                 if 0x80 \<le> c3 \<and> c3 \<le> 0xBF
                                 then utf16 ((b mod 8) * 262144 + (c1 mod 64) * 4096
                                             + (c2 mod 64) * 64 + c3 mod 64)
                                      @ utf8Decode r3
                                 else 0xFFFD # utf8Decode r2)))
      else 0xFFFD # utf8Decode bs)"

text \<open>
  \<open>decodeUTF8(encodedString)\<close>. Nothing in its \<open>try\<close> block throws, so the \<open>catch\<close>
  that would hand back the input is never entered.
\<close>

definition decodeUTF8 :: "jsval \<Rightarrow> jsstr" where
  "decodeUTF8 encodedString =
     (case encodedString of
        JStr s \<Rightarrow>
          if s = [] then []
          else if \<not> hasEscape s then s
          else utf8Decode (latin1 (replaceEscapes s))
      | _ \<Rightarrow> [])"

subsection \<open>Numeric ranges\<close>

text \<open>What \<open>parseNumber\<close> returns: \<open>null\<close> or a number.\<close>

datatype numOrNull = Null | Number jsnum

fun toJs :: "numOrNull \<Rightarrow> jsval" where
  "toJs Null = JNull"
| "toJs (Number n) = JNum n"

text \<open>
  \<open>parseFloat(v)\<close> converts its argument to a string and parses the longest numeric
  prefix. A number comes back as it is (its string form parses to the same double). \<open>None\<close> is
  the TypeError of the string conversion.
\<close>

definition parseFloat :: "platform \<Rightarrow> jsval \<Rightarrow> jsnum option" where
  "parseFloat P v =
     (case v of
        JNum n \<Rightarrow> Some n
      | _ \<Rightarrow> map_option (parseFloatStr P) (toStringJ P v))"

definition parseNumber :: "platform \<Rightarrow> jsval \<Rightarrow> numOrNull option" where
  "parseNumber P v =
     (if v = JNull \<or> v = JUndefined \<or> v = JStr [] then Some Null
      else do {
        parsed \<leftarrow> parseFloat P v;
        Some (if parsed = NaN then Null else Number parsed)
      })"

text \<open>\<open>a < b\<close> on numbers: false as soon as one side is NaN.\<close>

fun numLess :: "jsnum \<Rightarrow> jsnum \<Rightarrow> bool" where
  "numLess (Num a) (Num b) = (a < b)"
| "numLess NegInfinity (Num b) = True"
| "numLess NegInfinity PosInfinity = True"
| "numLess (Num a) PosInfinity = True"
| "numLess a b = False"

fun validateRange :: "numOrNull \<Rightarrow> numOrNull \<Rightarrow> bool" where
  "validateRange Null mx = False"
| "validateRange mn Null = False"
| "validateRange (Number a) (Number b) = numLess a b"

subsection \<open>Value specs\<close>

text \<open>
  \<open>this.sensorTypes\<close>, the table of the constructor: codes A, B, C, S, R, L with
  their Chinese names (temperature, humidity, carbon dioxide, negative pressure, wind
  speed, drinking water).
\<close>

definition sensorTypes :: jsval where
  "sensorTypes = obj
     [(''A'', JStr [0x6EAB, 0x5EA6]),
      (''B'', JStr [0x6FD5, 0x5EA6]),
      (''C'', JStr [0x4E8C, 0x6C27, 0x5316, 0x78B3]),
      (''S'', JStr [0x8CA0, 0x58D3]),
      (''R'', JStr [0x98A8, 0x901F]),
      (''L'', JStr [0x98F2, 0x7528, 0x6C34, 0x91CF])]"

text \<open>The default of the \<open>type\<close> field ("unknown type" in Chinese).\<close>

definition unknownType :: jsstr where
  "unknownType = [0x672A, 0x77E5, 0x985E, 0x578B]"

text \<open>\<open>o.k = v\<close> on an object: an own property keeps its place, a new one goes last.\<close>

fun assign :: "(jsstr \<times> jsval) list \<Rightarrow> jsstr \<Rightarrow> jsval \<Rightarrow> (jsstr \<times> jsval) list" where
  "assign [] k v = [(k, v)]"
| "assign ((k', v') # kvs) k v = (if k' = k then (k, v) # kvs else (k', v') # assign kvs k v)"

fun setProp :: "jsval \<Rightarrow> string \<Rightarrow> jsval \<Rightarrow> jsval" where
  "setProp (JObj kvs) k v = JObj (assign kvs (js k) v)"
| "setProp x k v = x"

text \<open>
  The body of the \<open>try\<close> in the callback of \<open>processValueArray\<close>; \<open>None\<close> is an exception
  (a \<open>null\<close> entry, or a \<open>max\<close>, \<open>min\<close> or \<open>code\<close> that cannot be converted to a string).
\<close>

definition processValueTry :: "platform \<Rightarrow> jsval \<Rightarrow> jsval option" where
  "processValueTry P v =
     do {
       id \<leftarrow> dot v ''_id'';
       rawName \<leftarrow> dot v ''name'';
       rawMax \<leftarrow> dot v ''max'';
       mx \<leftarrow> parseNumber P rawMax;
       rawMin \<leftarrow> dot v ''min'';
       mn \<leftarrow> parseNumber P rawMin;
       code \<leftarrow> dot v ''code'';
       calc \<leftarrow> dot v ''calc'';
       key \<leftarrow> toStringJ P code;
       ty \<leftarrow> getProp sensorTypes key;
       let processedValue = obj
         [(''_id'', id),
          (''name'', JStr (decodeUTF8 (orElse rawName (JStr [])))),
          (''max'', toJs mx),
          (''min'', toJs mn),
          (''code'', code),
          (''calc'', orElse calc JNull),
          (''type'', orElse ty (JStr unknownType))];
       Some (setProp processedValue ''range_valid'' (JBool (validateRange mn mx)))
     }"

text \<open>The callback: on an exception the raw entry is handed back.\<close>

definition processValue :: "platform \<Rightarrow> jsval \<Rightarrow> jsval" where
  "processValue P v = (case processValueTry P v of Some r \<Rightarrow> r | None \<Rightarrow> v)"

definition processValueArray :: "platform \<Rightarrow> jsval \<Rightarrow> jsval list" where
  "processValueArray P valueArray =
     (case valueArray of JArr vs \<Rightarrow> map (processValue P) vs | _ \<Rightarrow> [])"

subsection \<open>Readings\<close>

text \<open>
  \<open>determineSensorStatus(sensor)\<close>. The predicate of \<open>filter\<close> reads \<open>range_valid\<close> of
  every entry, which throws on a \<open>null\<close> entry; a \<open>value\<close> that is not an array has no
  \<open>filter\<close> method. The \<open>catch\<close> answers \<open>'error'\<close>.
\<close>

definition determineSensorStatus :: "jsval \<Rightarrow> jsval" where
  "determineSensorStatus sensor =
     (case do {
             v \<leftarrow> dot sensor ''value'';
             if \<not> truthy v \<or> dot v ''length'' = Some (JNum (Num 0))
             then Some (JStr (js ''no_values''))
             else do {
               vs \<leftarrow> (case v of JArr vs \<Rightarrow> Some vs | _ \<Rightarrow> None);
               flags \<leftarrow> those (map (\<lambda>x. dot x ''range_valid'') vs);
               if length (filter truthy flags) = 0
               then Some (JStr (js ''invalid_range''))
               else do {
                 name \<leftarrow> dot sensor ''name'';
                 des \<leftarrow> dot sensor ''DES'';
                 if \<not> truthy name \<or> \<not> truthy des
                 then Some (JStr (js ''incomplete_info''))
                 else Some (JStr (js ''active''))
               }
             }
           }
      of Some status \<Rightarrow> status
       | None \<Rightarrow> JStr (js ''error''))"

text \<open>
  \<open>processSingleSensor(sensor)\<close>; \<open>now\<close> is \<open>new Date().toISOString()\<close>. The \<open>catch\<close>
  answers \<open>null\<close>.
\<close>

definition processSingleSensor :: "platform \<Rightarrow> jsstr \<Rightarrow> jsval \<Rightarrow> jsval" where
  "processSingleSensor P now sensor =
     (case (if \<not> truthy sensor \<or> \<not> typeofObject sensor then Some JNull
            else do {
              sn \<leftarrow> dot sensor ''SN'';
              address \<leftarrow> dot sensor ''ADDRESS'';
              if \<not> truthy sn \<or> \<not> truthy address then Some JNull
              else do {
                des \<leftarrow> dot sensor ''DES'';
                name \<leftarrow> dot sensor ''name'';
                profile \<leftarrow> dot sensor ''profile'';
                v \<leftarrow> dot sensor ''value'';
                let decodedSensor = obj
                  [(''SN'', sn),
                   (''DES'', JStr (decodeUTF8 (orElse des (JStr [])))),
                   (''ADDRESS'', address),
                   (''name'', JStr (decodeUTF8 (orElse name (JStr [])))),
                   (''profile'', orElse profile (JStr [])),
                   (''value'', JArr (processValueArray P (orElse v (JArr [])))),
                   (''processed_at'', JStr now)];
                Some (setProp decodedSensor ''status'' (determineSensorStatus decodedSensor))
              }
            })
      of Some r \<Rightarrow> r
       | None \<Rightarrow> JNull)"

text \<open>The processor's \<open>processSensorData(sensorDataArray)\<close>.\<close>

definition processSensorDataArray :: "platform \<Rightarrow> jsstr \<Rightarrow> jsval \<Rightarrow> jsval list" where
  "processSensorDataArray P now sensorDataArray =
     (case sensorDataArray of
        JArr sensors \<Rightarrow> filter (\<lambda>s. s \<noteq> JNull) (map (processSingleSensor P now) sensors)
      | _ \<Rightarrow> [])"

definition formatValue :: "jsval \<Rightarrow> jsval option" where
  "formatValue v =
     do {
       id \<leftarrow> dot v ''_id'';
       name \<leftarrow> dot v ''name'';
       ty \<leftarrow> dot v ''type'';
       code \<leftarrow> dot v ''code'';
       mn \<leftarrow> dot v ''min'';
       mx \<leftarrow> dot v ''max'';
       valid \<leftarrow> dot v ''range_valid'';
       calc \<leftarrow> dot v ''calc'';
       Some (obj
         [(''id'', id),
          (''name'', name),
          (''type'', ty),
          (''code'', code),
          (''range'', obj [(''min'', mn), (''max'', mx), (''valid'', valid)]),
          (''calculation'', calc)])
     }"

text \<open>\<open>formatForMqtt(sensor)\<close>: on an exception the sensor itself is handed back.\<close>

definition formatForMqtt :: "jsval \<Rightarrow> jsval" where
  "formatForMqtt sensor =
     (case do {
             sn \<leftarrow> dot sensor ''SN'';
             des \<leftarrow> dot sensor ''DES'';
             address \<leftarrow> dot sensor ''ADDRESS'';
             name \<leftarrow> dot sensor ''name'';
             status \<leftarrow> dot sensor ''status'';
             v \<leftarrow> dot sensor ''value'';
             vs \<leftarrow> (case v of JArr vs \<Rightarrow> Some vs | _ \<Rightarrow> None);
             sensor_values \<leftarrow> those (map formatValue vs);
             profile \<leftarrow> dot sensor ''profile'';
             processed_at \<leftarrow> dot sensor ''processed_at'';
             total \<leftarrow> dot v ''length'';
             Some (obj
               [(''device_info'', obj
                   [(''serial_number'', sn),
                    (''description'', des),
                    (''address'', address),
                    (''name'', name),
                    (''status'', status)]),
                (''sensor_values'', JArr sensor_values),
                (''profile'', profile),
                (''metadata'', obj
                   [(''processed_at'', processed_at),
                    (''total_sensors'', total)])])
           }
      of Some r \<Rightarrow> r
       | None \<Rightarrow> sensor)"

definition processAndFormat :: "platform \<Rightarrow> jsstr \<Rightarrow> jsval \<Rightarrow> jsval list" where
  "processAndFormat P now sensorDataArray =
     map formatForMqtt (processSensorDataArray P now sensorDataArray)"

section \<open>The unit catalogue\<close>

text \<open>The array \<open>unit\<close> of unit.js (\<open>unit\<close> names a type in HOL, hence \<open>unit_table\<close>).\<close>

definition unit_table :: "jsval list" where
  "unit_table =
     [
      obj [(''name'', JStr ([0x6FD5, 0x5EA6])), (''unit'', JStr (js ''%'')),
           (''code'', JStr (js ''B'')), (''img'', JStr (js ''humidity.png''))],
      obj [(''name'', JStr ([0x4E8C, 0x6C27, 0x5316, 0x78B3])), (''unit'', JStr (js ''ppm'')),
           (''code'', JStr (js ''C'')), (''img'', JStr (js ''co2.png''))],
      obj [(''name'', JStr ([0x6C28, 0x6C23, 0x6FC3, 0x5EA6])), (''unit'', JStr (js ''ppm'')),
           (''code'', JStr (js ''D'')), (''img'', JStr (js ''gas.png''))],
      obj [(''name'', JStr (js ''PM 1.0'')), (''unit'', JStr ([0x00B5, 0x0067, 0x002F, 0x006D, 0x00B3])),
           (''code'', JStr (js ''E'')), (''img'', JStr (js ''gas.png''))],
      obj [(''name'', JStr (js ''PM 2.5'')), (''unit'', JStr ([0x00B5, 0x0067, 0x002F, 0x006D, 0x00B3])),
           (''code'', JStr (js ''F'')), (''img'', JStr (js ''gas.png''))],
      obj [(''name'', JStr (js ''PM10'')), (''unit'', JStr ([0x00B5, 0x0067, 0x002F, 0x006D, 0x00B3])),
           (''code'', JStr (js ''G'')), (''img'', JStr (js ''gas.png''))],
      obj [(''name'', JStr ([0x6EAB, 0x5EA6])), (''unit'', JStr ([0x2103])),
           (''code'', JStr (js ''A'')), (''img'', JStr (js ''temperature.png''))],
      obj [(''name'', JStr ([0x786B, 0x5316, 0x6C2B, 0x6FC3, 0x5EA6])), (''unit'', JStr (js ''ppm'')),
           (''code'', JStr (js ''H'')), (''img'', JStr (js ''gas.png''))],
      obj [(''name'', JStr ([0x7167, 0x5EA6])), (''unit'', JStr (js ''lux'')),
           (''code'', JStr (js ''I'')), (''img'', JStr (js ''gas.png''))],
      obj [(''name'', JStr ([0x6C27, 0x6C23, 0x6FC3, 0x5EA6])), (''unit'', JStr (js ''%'')),
           (''code'', JStr (js ''J'')), (''img'', JStr (js ''gas.png''))],
      obj [(''name'', JStr ([0x98FC, 0x6599, 0x4F9B, 0x7D66, 0x91CF])), (''unit'', JStr (js ''kg'')),
           (''code'', JStr (js ''K'')), (''img'', JStr (js ''gas.png''))],
      obj [(''name'', JStr ([0x98F2, 0x7528, 0x6C34, 0x91CF])), (''unit'', JStr (js ''L'')),
           (''code'', JStr (js ''L'')), (''img'', JStr (js ''gas.png''))],
      obj [(''name'', JStr ([0x6DB2, 0x4F4D])), (''unit'', JStr (js ''cm'')),
           (''code'', JStr (js ''M'')), (''img'', JStr (js ''gas.png''))],
      obj [(''name'', JStr ([0x6C34, 0x4F4D, 0x72C0, 0x614B])), (''unit'', JStr (js ''state'')),
           (''code'', JStr (js ''N'')), (''img'', JStr (js ''gas.png''))],
      obj [(''name'', JStr ([0x5373, 0x6642, 0x91CD, 0x91CF])), (''unit'', JStr (js ''g'')),
           (''code'', JStr (js ''O'')), (''img'', JStr (js ''gas.png''))],
      obj [(''name'', JStr ([0x77AC, 0x9593, 0x529F, 0x7387])), (''unit'', JStr (js ''KW'')),
           (''code'', JStr (js ''P'')), (''img'', JStr (js ''gas.png''))],
      obj [(''name'', JStr ([0x91CD, 0x91CF])), (''unit'', JStr (js ''g'')),
           (''code'', JStr (js ''Q'')), (''img'', JStr (js ''gas.png''))],
      obj [(''name'', JStr ([0x98A8, 0x901F])), (''unit'', JStr (js ''m/s'')),
           (''code'', JStr (js ''R'')), (''img'', JStr (js ''gas.png''))],
      obj [(''name'', JStr ([0x8CA0, 0x58D3])), (''unit'', JStr (js ''pa'')),
           (''code'', JStr (js ''S'')), (''img'', JStr (js ''gas.png''))],
      obj [(''name'', JStr ([0x865B, 0x64EC])), (''unit'', JStr ([0x865B, 0x64EC])),
           (''code'', JStr (js ''9'')), (''img'', JStr (js ''gas.png''))],
      obj [(''name'', JStr ([0x958B, 0x95DC, 0x91CF])), (''unit'', JStr ([0x958B, 0x95DC, 0x91CF])),
           (''code'', JStr (js ''T'')), (''img'', JStr (js ''gas.png''))],
      obj [(''name'', JStr ([0x96FB, 0x6D41])), (''unit'', JStr (js ''A'')),
           (''code'', JStr (js ''X'')), (''img'', JStr (js ''gas.png''))],
      obj [(''name'', JStr ([0x96FB, 0x58D3])), (''unit'', JStr (js ''V'')),
           (''code'', JStr (js ''W'')), (''img'', JStr (js ''gas.png''))],
      obj [(''name'', JStr ([0x5EA6])), (''unit'', JStr (js ''KWh'')),
           (''code'', JStr (js ''Z'')), (''img'', JStr (js ''gas.png''))],
      obj [(''name'', JStr ([0x5373, 0x6642, 0x529F, 0x7387])), (''unit'', JStr (js ''W'')),
           (''code'', JStr (js ''Y'')), (''img'', JStr (js ''gas.png''))],
      obj [(''name'', JStr ([0x529F, 0x7387, 0x56E0, 0x6578])), (''unit'', JStr (js ''PF'')),
           (''code'', JStr (js ''U'')), (''img'', JStr (js ''gas.png''))],
      obj [(''name'', JStr ([0x98A8, 0x5411])), (''unit'', JStr ([0x00B0])),
           (''code'', JStr (js ''V'')), (''img'', JStr (js ''gas.png''))],
      obj [(''name'', JStr ([0x7D2B, 0x5916, 0x7DDA, 0x5F37, 0x5EA6])), (''unit'', JStr ([0x006D, 0x0057, 0x002F, 0x0063, 0x006D, 0x00B2])),
           (''code'', JStr (js ''a'')), (''img'', JStr (js ''gas.png''))],
      obj [(''name'', JStr ([0x5149, 0x91CF, 0x5B50])), (''unit'', JStr ([0x0075, 0x006D, 0x006F, 0x006C, 0x002F, 0x006D, 0x00B2, 0x0073])),
           (''code'', JStr (js ''b'')), (''img'', JStr (js ''gas.png''))],
      obj [(''name'', JStr ([0x96E8, 0x6EF4, 0x611F, 0x77E5])), (''unit'', JStr [0x20]),
           (''code'', JStr (js ''c'')), (''img'', JStr (js ''gas.png''))],
      obj [(''name'', JStr ([0x96FB, 0x5C0E, 0x5EA6])), (''unit'', JStr (js ''us/cm'')),
           (''code'', JStr (js ''d'')), (''img'', JStr (js ''gas.png''))],
      obj [(''name'', JStr (js ''PH'')), (''unit'', JStr (js ''PH'')),
           (''code'', JStr (js ''e'')), (''img'', JStr (js ''gas.png''))],
      obj [(''name'', JStr ([0x6C34, 0x6D3B, 0x6027])), (''unit'', JStr (js ''aw'')),
           (''code'', JStr (js ''f'')), (''img'', JStr (js ''gas.png''))],
      obj [(''name'', JStr ([0x7570, 0x5E38, 0x503C])), (''unit'', JStr []),
           (''code'', JStr (js ''g'')), (''img'', JStr (js ''gas.png''))]
     ]"

text \<open>\<open>unit.find(u => u.code === code) || null\<close>\<close>

definition getUnitByCode :: "jsval \<Rightarrow> jsval" where
  "getUnitByCode code =
     (case find (\<lambda>u. dot u ''code'' = Some code) unit_table of
        Some u \<Rightarrow> u
      | None \<Rightarrow> JNull)"

section \<open>Errors\<close>

text \<open>A thrown value: an \<open>Error\<close>, a \<open>TypeError\<close> or a \<open>SyntaxError\<close>, with its message.\<close>

datatype jserror = Error jsstr | TypeError jsstr | SyntaxError jsstr

fun message :: "jserror \<Rightarrow> jsstr" where
  "message (Error m) = m"
| "message (TypeError m) = m"
| "message (SyntaxError m) = m"

definition cannotConvert :: jserror where
  "cannotConvert = TypeError (js ''Cannot convert object to primitive value'')"

definition cannotRead :: jserror where
  "cannotRead = TypeError (js ''Cannot read properties of null'')"

section \<open>RedisService\<close>

text \<open>
  The services keep the class names of the sources. Two classes name a field \<open>client\<close>
  and \<open>isConnected\<close>; the records tell them apart by a prefix.
\<close>

text \<open>
  The argument of \<open>retry_strategy\<close>: the last error (or \<open>undefined\<close>), the time spent
  retrying in milliseconds and the number of the attempt, both counted by the client
  library.
\<close>

record retry_options =
  error :: jsval
  total_retry_time :: nat
  attempt :: nat

text \<open>
  What \<open>retry_strategy\<close> returns: \<open>new Error(m)\<close>, \<open>undefined\<close> or a delay. The two
  messages say, in Chinese, "the Redis server refused the connection" and "the Redis retry
  time exceeded 1 hour". The third halt logs "the Redis retries exceeded 10" and returns
  \<open>undefined\<close>.
\<close>

datatype retry_result = RetryError jsstr | RetryUndefined | RetryDelay nat

definition retry_strategy :: "retry_options \<Rightarrow> retry_result" where
  "retry_strategy options =
     (if truthy (error options) \<and> dot (error options) ''code'' = Some (JStr (js ''ECONNREFUSED''))
      then RetryError [0x0052, 0x0065, 0x0064, 0x0069, 0x0073, 0x670D, 0x52D9, 0x5668,
                       0x62D2, 0x7D55, 0x9023, 0x63A5]
      else if total_retry_time options > 1000 * 60 * 60
      then RetryError [0x0052, 0x0065, 0x0064, 0x0069, 0x0073, 0x91CD, 0x8A66, 0x6642,
                       0x9593, 0x8D85, 0x904E, 0x0031, 0x5C0F, 0x6642]
      else if attempt options > 10 then RetryUndefined
      else RetryDelay (min (attempt options * 100) 3000))"

text \<open>
  The client of the store: its \<open>isReady\<close> flag, and what \<open>get(key)\<close> resolves to (a
  string, or \<open>None\<close> for \<open>null\<close>) or rejects with.
\<close>

record redis_client =
  clientIsReady :: bool
  getReply :: "jsval \<Rightarrow> jserror + jsstr option"

text \<open>The fields \<open>client\<close> and \<open>isConnected\<close> of a RedisService.\<close>

record RedisService =
  redisClient :: "redis_client option"
  redisIsConnected :: bool

text \<open>\<open>RedisService.isReady()\<close>\<close>

definition redisIsReady :: "RedisService \<Rightarrow> bool" where
  "redisIsReady rs =
     (redisIsConnected rs \<and>
      (case redisClient rs of None \<Rightarrow> False | Some c \<Rightarrow> clientIsReady c))"

text \<open>
  \<open>getSensorData(key = 'SENINF')\<close>. The first error says "Redis is not connected". The
  debug line interpolates \<open>sensorData.length\<close>, which throws when the stored JSON is
  \<open>null\<close>. The \<open>catch\<close> logs and throws again.
\<close>

definition getSensorData :: "platform \<Rightarrow> RedisService \<Rightarrow> jsval \<Rightarrow> jserror + jsval" where
  "getSensorData P rs key0 =
     (let key = (if key0 = JUndefined then JStr (js ''SENINF'') else key0) in
      case redisClient rs of
        None \<Rightarrow> Inl (Error [0x0052, 0x0065, 0x0064, 0x0069, 0x0073, 0x672A, 0x9023, 0x63A5])
      | Some c \<Rightarrow>
          if \<not> redisIsConnected rs
          then Inl (Error [0x0052, 0x0065, 0x0064, 0x0069, 0x0073, 0x672A, 0x9023, 0x63A5])
          else (case getReply c key of
                  Inl e \<Rightarrow> Inl e
                | Inr None \<Rightarrow> Inr (JArr [])
                | Inr (Some d) \<Rightarrow>
                    if d = [] then Inr (JArr [])
                    else (case jsonParse P d of
                            None \<Rightarrow> Inl (SyntaxError (js ''Unexpected token in JSON''))
                          | Some sensorData \<Rightarrow>
                              (case dot sensorData ''length'' of
                                 None \<Rightarrow> Inl cannotRead
                               | Some len \<Rightarrow>
                                   (case toStringJ P len of
                                      None \<Rightarrow> Inl cannotConvert
                                    | Some t \<Rightarrow> Inr sensorData)))))"

section \<open>MqttService\<close>

record config =
  DEVICE_TOPIC_PREFIX :: jsstr
  MQTT_CLIENT_ID :: jsval
  SENSOR_DATA_KEY :: jsval
  POLL_INTERVAL :: nat

text \<open>
  The client of the bus: its \<open>connected\<close> flag, the error (if any) that the broker
  reports to the callback of \<open>publish(topic, payload, ...)\<close>, and every message handed
  to \<open>publish\<close> so far, oldest first. A payload is the object given to
  \<open>JSON.stringify\<close>.
\<close>

record mqtt_client =
  clientConnected :: bool
  broker :: "jsstr \<Rightarrow> jsval \<Rightarrow> jserror option"
  sent :: "(jsstr \<times> jsval) list"

text \<open>The fields \<open>config\<close>, \<open>client\<close> and \<open>isConnected\<close> of an MqttService.\<close>

record MqttService =
  mqttConfig :: config
  mqttClient :: "mqtt_client option"
  mqttIsConnected :: bool

text \<open>\<open>MqttService.isReady()\<close>\<close>

definition mqttIsReady :: "MqttService \<Rightarrow> bool" where
  "mqttIsReady ms =
     (mqttIsConnected ms \<and>
      (case mqttClient ms of None \<Rightarrow> False | Some c \<Rightarrow> clientConnected c))"

text \<open>\<open>new Error(...)\<close> with the message "MQTT is not connected".\<close>

definition notConnected :: jserror where
  "notConnected = Error [0x004D, 0x0051, 0x0054, 0x0054, 0x672A, 0x9023, 0x63A5]"

text \<open>Decimal digits of an array index.\<close>

fun showNat :: "nat \<Rightarrow> jsstr" where
  "showNat n = (if n < 10 then [48 + n] else showNat (n div 10) @ [48 + n mod 10])"

text \<open>\<open>{...v}\<close>: the own enumerable properties of a value.\<close>

fun spread :: "jsval \<Rightarrow> (jsstr \<times> jsval) list" where
  "spread (JObj kvs) = kvs"
| "spread (JArr xs) = zip (map showNat [0..<length xs]) xs"
| "spread (JStr s) = zip (map showNat [0..<length s]) (map (\<lambda>c. JStr [c]) s)"
| "spread v = []"

text \<open>\<open>client.publish(topic, payload, ...)\<close>: the message is handed over, the broker answers.\<close>

definition clientPublish ::
  "MqttService \<Rightarrow> mqtt_client \<Rightarrow> jsstr \<Rightarrow> jsval \<Rightarrow> (jserror + unit) \<times> MqttService" where
  "clientPublish ms c topic payload =
     (case broker c topic payload of Some e \<Rightarrow> Inl e | None \<Rightarrow> Inr (),
      ms\<lparr>mqttClient := Some (c\<lparr>sent := sent c @ [(topic, payload)]\<rparr>)\<rparr>)"

text \<open>The topic \<open>`${this.config.DEVICE_TOPIC_PREFIX}/${deviceName}/seninf`\<close>, for a device name already converted to a string.\<close>

definition seninfTopic :: "config \<Rightarrow> jsstr \<Rightarrow> jsstr" where
  "seninfTopic cfg name = DEVICE_TOPIC_PREFIX cfg @ [0x2F] @ name @ js ''/seninf''"

text \<open>
  The payload of \<open>publishSensorData\<close>:
  \<open>{...sensorData, timestamp: new Date().toISOString(), published_by: this.config.MQTT_CLIENT_ID}\<close>.
\<close>

definition seninfPayload :: "config \<Rightarrow> jsstr \<Rightarrow> jsval \<Rightarrow> jsval" where
  "seninfPayload cfg now sensorData =
     JObj (assign (assign (spread sensorData) (js ''timestamp'') (JStr now))
             (js ''published_by'') (MQTT_CLIENT_ID cfg))"

text \<open>\<open>publishSensorData(deviceName, sensorData)\<close>; its \<open>catch\<close> logs and throws again.\<close>

definition publishSensorData ::
  "platform \<Rightarrow> jsstr \<Rightarrow> MqttService \<Rightarrow> jsval \<Rightarrow> jsval \<Rightarrow> (jserror + unit) \<times> MqttService" where
  "publishSensorData P now ms deviceName sensorData =
     (case mqttClient ms of
        None \<Rightarrow> (Inl notConnected, ms)
      | Some c \<Rightarrow>
          if \<not> mqttIsConnected ms then (Inl notConnected, ms)
          else (case toStringJ P deviceName of
                  None \<Rightarrow> (Inl cannotConvert, ms)
                | Some name \<Rightarrow>
                    clientPublish ms c
                      (seninfTopic (mqttConfig ms) name)
                      (seninfPayload (mqttConfig ms) now sensorData)))"

text \<open>
  How the loop of \<open>publishBatchSensorData\<close> names the device of one entry; \<open>Inl\<close> is
  an exception, which leaves the loop and the function.
\<close>

definition resolveDeviceName :: "platform \<Rightarrow> jsval \<Rightarrow> jserror + jsval" where
  "resolveDeviceName P sensorData =
     (case dot sensorData ''device_info'' of
        None \<Rightarrow> Inl cannotRead
      | Some info \<Rightarrow>
          if truthy info \<and> truthy (case dot info ''serial_number'' of Some x \<Rightarrow> x | None \<Rightarrow> JUndefined)
          then Inr (case dot info ''serial_number'' of Some x \<Rightarrow> x | None \<Rightarrow> JUndefined)
          else (case (dot sensorData ''SN'', dot sensorData ''ADDRESS'') of
                  (Some sn, Some address) \<Rightarrow>
                    if truthy sn then Inr sn
                    else if truthy address
                    then (case toStringJ P address of
                            None \<Rightarrow> Inl cannotConvert
                          | Some a \<Rightarrow> Inr (JStr (js ''device_'' @ a)))
                    else Inr (JStr (js ''unknown_device''))
                | _ \<Rightarrow> Inl cannotRead))"

text \<open>An entry of what \<open>Promise.allSettled\<close> resolves to.\<close>

datatype settled = Fulfilled jsval | Rejected jserror

text \<open>
  \<open>this.publishSensorData(deviceName, sensorData).catch(error => ...)\<close>: the handler
  interpolates the device name into its log line (which throws if the name cannot be
  converted) and answers \<open>{ deviceName, error: error.message }\<close>.
\<close>

definition publishOne ::
  "platform \<Rightarrow> jsstr \<Rightarrow> MqttService \<Rightarrow> jsval \<Rightarrow> jsval \<Rightarrow> settled \<times> MqttService" where
  "publishOne P now ms deviceName sensorData =
     (case publishSensorData P now ms deviceName sensorData of
        (Inr u, ms') \<Rightarrow> (Fulfilled JUndefined, ms')
      | (Inl e, ms') \<Rightarrow>
          (case toStringJ P deviceName of
             None \<Rightarrow> (Rejected cannotConvert, ms')
           | Some name \<Rightarrow>
               (Fulfilled (obj [(''deviceName'', deviceName), (''error'', JStr (message e))]),
                ms')))"

text \<open>
  \<open>publishBatchSensorData(sensorDataArray)\<close>: one \<open>publishSensorData\<close> per entry, then
  \<open>Promise.allSettled\<close> over the results.
\<close>

fun publishBatchSensorData ::
  "platform \<Rightarrow> jsstr \<Rightarrow> MqttService \<Rightarrow> jsval list \<Rightarrow> (jserror + settled list) \<times> MqttService" where
  "publishBatchSensorData P now ms [] = (Inr [], ms)"
| "publishBatchSensorData P now ms (sensorData # rest) =
     (case resolveDeviceName P sensorData of
        Inl e \<Rightarrow> (Inl e, ms)
      | Inr deviceName \<Rightarrow>
          (case publishOne P now ms deviceName sensorData of
             (r, ms') \<Rightarrow>
               (case publishBatchSensorData P now ms' rest of
                  (Inl e, ms'') \<Rightarrow> (Inl e, ms'')
                | (Inr rs, ms'') \<Rightarrow> (Inr (r # rs), ms''))))"

text \<open>
  \<open>publishBatchSensorDataWithDeviceName(sensorDataArray, deviceName)\<close>: all entries in
  one envelope. No caller of it is part of the sources.
\<close>

definition sensorEntry :: "jsval \<Rightarrow> jsval option" where
  "sensorEntry sensorData =
     do {
       info \<leftarrow> dot sensorData ''device_info'';
       vals \<leftarrow> dot sensorData ''sensor_values'';
       profile \<leftarrow> dot sensorData ''profile'';
       metadata \<leftarrow> dot sensorData ''metadata'';
       Some (obj [(''device_info'', info), (''sensor_values'', vals),
                  (''profile'', profile), (''metadata'', metadata)])
     }"

definition publishBatchSensorDataWithDeviceName ::
  "platform \<Rightarrow> jsstr \<Rightarrow> MqttService \<Rightarrow> jsval list \<Rightarrow> jsval \<Rightarrow> (jserror + jsval) \<times> MqttService" where
  "publishBatchSensorDataWithDeviceName P now ms sensorDataArray deviceName =
     (case mqttClient ms of
        None \<Rightarrow> (Inl notConnected, ms)
      | Some c \<Rightarrow>
          if \<not> mqttIsConnected ms then (Inl notConnected, ms)
          else (case those (map sensorEntry sensorDataArray) of
                  None \<Rightarrow> (Inl cannotRead, ms)
                | Some sensors \<Rightarrow>
                    (case toStringJ P deviceName of
                       None \<Rightarrow> (Inl cannotConvert, ms)
                     | Some name \<Rightarrow>
                         (case clientPublish ms c
                                 (seninfTopic (mqttConfig ms) name)
                                 (obj [(''device_info'', obj
                                          [(''device_name'', deviceName),
                                           (''total_sensors'',
                                              JNum (Num (real (length sensorDataArray)))),
                                           (''status'', JStr (js ''active''))]),
                                       (''sensors'', JArr sensors),
                                       (''timestamp'', JStr now),
                                       (''published_by'', MQTT_CLIENT_ID (mqttConfig ms))])
                          of
                            (Inl e, ms') \<Rightarrow> (Inl e, ms')
                          | (Inr u, ms') \<Rightarrow>
                              (Inr (JArr [obj [(''status'', JStr (js ''fulfilled'')),
                                               (''deviceName'', deviceName)]]),
                               ms')))))"

section \<open>MqttPushService\<close>

text \<open>
  One reading of the clock, \<open>now\<close>, stands for all the timestamps of a cycle. The cycle is
  modelled as one uninterrupted run: what the connections do while it waits for the store
  or the broker shows in the next cycle.
\<close>

record stats =
  startTime :: jsstr
  totalPublished :: nat
  lastPublishTime :: "jsstr option"
  errors :: nat

text \<open>\<open>pollTimer\<close> holds the interval of the armed timer, or nothing.\<close>

record MqttPushService =
  config :: config
  redisService :: "RedisService option"
  mqttService :: "MqttService option"
  isRunning :: bool
  pollTimer :: "nat option"
  stats :: stats

text \<open>\<open>result.status === 'rejected' || result.value?.error\<close>\<close>

fun failed :: "settled \<Rightarrow> bool" where
  "failed (Rejected e) = True"
| "failed (Fulfilled v) = (case dot v ''error'' of None \<Rightarrow> False | Some e \<Rightarrow> truthy e)"

definition updateStats :: "jsstr \<Rightarrow> nat \<Rightarrow> settled list \<Rightarrow> MqttPushService \<Rightarrow> MqttPushService" where
  "updateStats now publishedCount results s =
     (let st = (stats s)\<lparr>totalPublished := totalPublished (stats s) + publishedCount,
                         lastPublishTime := Some now\<rparr>;
          failedCount = length (filter failed results)
      in s\<lparr>stats := (if failedCount > 0 then st\<lparr>errors := errors st + failedCount\<rparr> else st)\<rparr>)"

text \<open>
  The \<open>try\<close> block of \<open>processSensorData()\<close>. Calling \<open>isReady()\<close> on a service that was
  never constructed is a TypeError.
\<close>

definition processSensorDataTry ::
  "platform \<Rightarrow> jsstr \<Rightarrow> MqttPushService \<Rightarrow> (jserror + unit) \<times> MqttPushService" where
  "processSensorDataTry P now s =
     (if \<not> isRunning s then (Inr (), s)
      else case redisService s of
        None \<Rightarrow> (Inl cannotRead, s)
      | Some rs \<Rightarrow>
          if \<not> redisIsReady rs then (Inr (), s)
          else (case mqttService s of
                  None \<Rightarrow> (Inl cannotRead, s)
                | Some ms \<Rightarrow>
                    if \<not> mqttIsReady ms then (Inr (), s)
                    else (case getSensorData P rs (SENSOR_DATA_KEY (config s)) of
                            Inl e \<Rightarrow> (Inl e, s)
                          | Inr rawSensorData \<Rightarrow>
                              if \<not> truthy rawSensorData
                                 \<or> dot rawSensorData ''length'' = Some (JNum (Num 0))
                              then (Inr (), s)
                              else (let processedData = processAndFormat P now rawSensorData in
                                    if length processedData = 0 then (Inr (), s)
                                    else (case publishBatchSensorData P now ms processedData of
                                            (Inl e, ms') \<Rightarrow> (Inl e, s\<lparr>mqttService := Some ms'\<rparr>)
                                          | (Inr results, ms') \<Rightarrow>
                                              (Inr (),
                                               updateStats now (length processedData) results
                                                 (s\<lparr>mqttService := Some ms'\<rparr>)))))))"

text \<open>\<open>processSensorData()\<close>: the \<open>catch\<close> counts the error and throws it again.\<close>

definition processSensorData ::
  "platform \<Rightarrow> jsstr \<Rightarrow> MqttPushService \<Rightarrow> (jserror + unit) \<times> MqttPushService" where
  "processSensorData P now s =
     (case processSensorDataTry P now s of
        (Inl e, s') \<Rightarrow> (Inl e, s'\<lparr>stats := (stats s')\<lparr>errors := errors (stats s') + 1\<rparr>\<rparr>)
      | (Inr u, s') \<Rightarrow> (Inr u, s'))"

text \<open>
  The callback that \<open>startPolling()\<close> gives to \<open>setInterval\<close>: its \<open>catch\<close> logs and
  counts the error.
\<close>

definition pollTick ::
  "platform \<Rightarrow> jsstr \<Rightarrow> MqttPushService \<Rightarrow> (jserror + unit) \<times> MqttPushService" where
  "pollTick P now s =
     (case processSensorData P now s of
        (Inl e, s') \<Rightarrow> (Inr (), s'\<lparr>stats := (stats s')\<lparr>errors := errors (stats s') + 1\<rparr>\<rparr>)
      | (Inr u, s') \<Rightarrow> (Inr (), s'))"

definition startPolling :: "MqttPushService \<Rightarrow> MqttPushService" where
  "startPolling s = s\<lparr>pollTimer := Some (POLL_INTERVAL (config s))\<rparr>"

text \<open>
  The armed timer. Each tick has its clock reading and what the outside did to the
  service since the tick before (connection events, new data in the store). A callback
  that threw would be an unhandled rejection, on which the shutdown hook of the service
  ends the process: the timer then stops. The result counts the ticks that completed.
\<close>

fun runTimer ::
  "platform \<Rightarrow> (jsstr \<times> (MqttPushService \<Rightarrow> MqttPushService)) list \<Rightarrow> MqttPushService
   \<Rightarrow> nat \<times> MqttPushService" where
  "runTimer P [] s = (0, s)"
| "runTimer P ((now, outside) # ticks) s =
     (case pollTick P now (outside s) of
        (Inl e, s') \<Rightarrow> (0, s'\<lparr>isRunning := False, pollTimer := None\<rparr>)
      | (Inr u, s') \<Rightarrow> (case runTimer P ticks s' of (n, s'') \<Rightarrow> (Suc n, s'')))"

section \<open>Notions used by the properties\<close>

text \<open>The \<open>range_valid\<close> flag of an entry of a reading's \<open>value\<close> list, read as the filter of
  \<open>determineSensorStatus\<close> reads it.\<close>

definition rangeValidOf :: "jsval \<Rightarrow> bool" where
  "rangeValidOf v = (case dot v ''range_valid'' of Some f \<Rightarrow> truthy f | None \<Rightarrow> False)"

text \<open>\<open>Object.keys(v)\<close>\<close>

definition ownKeys :: "jsval \<Rightarrow> jsstr list" where
  "ownKeys v = (case v of JObj kvs \<Rightarrow> map fst kvs | _ \<Rightarrow> [])"


text \<open>
  The message that \<open>publishBatchSensorData\<close> has to hand to the client for one entry: the
  topic of the entry's own device name and the entry as payload. \<open>None\<close> when the name
  does not resolve or cannot be converted to a string.
\<close>

definition seninfMessage :: "platform \<Rightarrow> config \<Rightarrow> jsstr \<Rightarrow> jsval \<Rightarrow> (jsstr \<times> jsval) option" where
  "seninfMessage P cfg now d =
     (case resolveDeviceName P d of
        Inl e \<Rightarrow> None
      | Inr n \<Rightarrow>
          (case toStringJ P n of
             None \<Rightarrow> None
           | Some t \<Rightarrow> Some (seninfTopic cfg t, seninfPayload cfg now d)))"


text \<open>The first test of \<open>retry_strategy\<close>: the last error is a refused connection.\<close>

definition refused :: "retry_options \<Rightarrow> bool" where
  "refused options =
     (truthy (error options) \<and> dot (error options) ''code'' = Some (JStr (js ''ECONNREFUSED'')))"


section \<open>Sample data\<close>

text \<open>
  A reading as the README of the service shows it, the JSON text of two such readings (one
  device, addresses 1 and 2), and a platform that parses that text. None of the samples
  holds a string that \<open>parseFloat\<close> has to parse, and no number of theirs is printed
  where the result is used, so the sample platform answers NaN and the empty string there.
\<close>

definition demoNow :: jsstr where
  "demoNow = js ''2023-12-07T10:30:00.000Z''"

definition demoValue :: jsval where
  "demoValue = obj
     [(''_id'', JStr (js ''603db20ab7d71486ab441e20'')),
      (''name'', JStr (js ''temp'')),
      (''code'', JStr (js ''A'')),
      (''min'', JNum (Num (- 1))),
      (''max'', JNum (Num 60))]"

definition demoReading :: "real \<Rightarrow> jsval" where
  "demoReading address = obj
     [(''SN'', JStr (js ''16A0885024'')),
      (''DES'', JStr (js ''rear'')),
      (''ADDRESS'', JNum (Num address)),
      (''name'', JStr (js ''thermometer'')),
      (''profile'', JStr []),
      (''value'', JArr [demoValue])]"

definition demoText :: jsstr where
  \<open>demoText = js
     (''[{"SN":"16A0885024","DES":"rear","ADDRESS":1,"name":"thermometer","profile":"",'' @
      ''"value":[{"_id":"603db20ab7d71486ab441e20","name":"temp","code":"A","min":-1,"max":60}]},'' @
      ''{"SN":"16A0885024","DES":"rear","ADDRESS":2,"name":"thermometer","profile":"",'' @
      ''"value":[{"_id":"603db20ab7d71486ab441e20","name":"temp","code":"A","min":-1,"max":60}]}]'')\<close>

definition demoPlatform :: platform where
  "demoPlatform =
     \<lparr>parseFloatStr = (\<lambda>s. NaN),
      numberToString = (\<lambda>n. []),
      jsonParse = (\<lambda>s. if s = demoText then Some (JArr [demoReading 1, demoReading 2]) else None)\<rparr>"

definition demoConfig :: config where
  "demoConfig =
     \<lparr>DEVICE_TOPIC_PREFIX = js ''device'',
      MQTT_CLIENT_ID = JStr (js ''mqtt-push-service''),
      SENSOR_DATA_KEY = JStr (js ''SENINF''),
      POLL_INTERVAL = 5000\<rparr>"

definition demoMqtt :: "jserror option \<Rightarrow> MqttService" where
  "demoMqtt answer =
     \<lparr>mqttConfig = demoConfig,
      mqttClient = Some \<lparr>clientConnected = True, broker = (\<lambda>topic payload. answer), sent = []\<rparr>,
      mqttIsConnected = True\<rparr>"

definition demoRedis :: "bool \<Rightarrow> jserror + jsstr option \<Rightarrow> RedisService" where
  "demoRedis ready reply =
     \<lparr>redisClient = Some \<lparr>clientIsReady = ready, getReply = (\<lambda>key. reply)\<rparr>,
      redisIsConnected = ready\<rparr>"

definition demoService :: "RedisService \<Rightarrow> MqttService \<Rightarrow> MqttPushService" where
  "demoService rs ms =
     \<lparr>config = demoConfig,
      redisService = Some rs,
      mqttService = Some ms,
      isRunning = True,
      pollTimer = Some 5000,
      stats = \<lparr>startTime = demoNow, totalPublished = 0, lastPublishTime = None, errors = 0\<rparr>\<rparr>"

text \<open>The envelope that \<open>processAndFormat\<close> makes of a sample reading.\<close>

definition demoEnvelope :: "real \<Rightarrow> jsval" where
  "demoEnvelope address = obj
     [(''device_info'', obj
         [(''serial_number'', JStr (js ''16A0885024'')),
          (''description'', JStr (js ''rear'')),
          (''address'', JNum (Num address)),
          (''name'', JStr (js ''thermometer'')),
          (''status'', JStr (js ''active''))]),
      (''sensor_values'', JArr
         [obj [(''id'', JStr (js ''603db20ab7d71486ab441e20'')),
               (''name'', JStr (js ''temp'')),
               (''type'', JStr [0x6EAB, 0x5EA6]),
               (''code'', JStr (js ''A'')),
               (''range'', obj [(''min'', JNum (Num (- 1))), (''max'', JNum (Num 60)),
                                (''valid'', JBool True)]),
               (''calculation'', JNull)]]),
      (''profile'', JStr []),
      (''metadata'', obj
         [(''processed_at'', JStr demoNow),
          (''total_sensors'', JNum (Num 1))])]"

section \<open>Auxiliary facts\<close>

subsection \<open>Objects and property reads\<close>

lemma js_eq_iff: "js a = js b \<longleftrightarrow> a = b"
  unfolding js_def by (simp add: inj_map_eq_map inj_on_def)

lemma map_of_js: "map_of (map (\<lambda>(k, v). (js k, v)) kvs) (js k) = map_of kvs k"
  by (induction kvs) (auto simp: js_eq_iff)


lemma dot_obj:
  "dot (obj kvs) k =
     Some (case map_of kvs k of
             Some v \<Rightarrow> v
           | None \<Rightarrow> if js k \<in> set objectPrototypeKeys then JBuiltin (js k) else JUndefined)"
  by (simp add: dot_def obj_def map_of_js)

lemma map_of_assign: "map_of (assign kvs k v) k' = (if k' = k then Some v else map_of kvs k')"
  by (induction kvs) auto

lemma dot_setProp_obj:
  "dot (setProp (obj kvs) k v) k' = (if k' = k then Some v else dot (obj kvs) k')"
  by (simp add: dot_def obj_def map_of_assign js_eq_iff)

lemma truthy_obj: "truthy (obj kvs)" and typeofObject_obj: "typeofObject (obj kvs)"
  by (simp_all add: obj_def)

lemma truthy_setProp_obj: "truthy (setProp (obj kvs) k v)"
  by (simp add: obj_def)

lemma setProp_obj_not_null: "setProp (obj kvs) k v \<noteq> JNull"
  by (simp add: obj_def)

lemma getProp_None_iff: "getProp v k = None \<longleftrightarrow> v = JNull \<or> v = JUndefined"
  by (cases v) auto

lemma dot_None_iff: "dot v k = None \<longleftrightarrow> v = JNull \<or> v = JUndefined"
  by (simp add: dot_def getProp_None_iff)

lemma dot_JArr_length: "dot (JArr vs) ''length'' = Some (JNum (Num (real (length vs))))"
  by (simp add: dot_def)

lemma those_map_total:
  "(\<forall>x\<in>set xs. f x \<noteq> None) \<Longrightarrow> those (map f xs) = Some (map (\<lambda>x. the (f x)) xs)"
  by (induction xs) auto

lemma those_length: "those xs = Some ys \<Longrightarrow> length ys = length xs"
  by (induction xs arbitrary: ys) (auto split: option.splits)

lemma processValueTry_SomeD:
  assumes "processValueTry P v = Some r"
  obtains id rawName rawMax mx rawMin mn code calc key ty where
    "dot v ''_id'' = Some id" "dot v ''name'' = Some rawName"
    "dot v ''max'' = Some rawMax" "parseNumber P rawMax = Some mx"
    "dot v ''min'' = Some rawMin" "parseNumber P rawMin = Some mn"
    "dot v ''code'' = Some code" "dot v ''calc'' = Some calc"
    "toStringJ P code = Some key" "getProp sensorTypes key = Some ty"
    "r = setProp (obj
         [(''_id'', id),
          (''name'', JStr (decodeUTF8 (orElse rawName (JStr [])))),
          (''max'', toJs mx),
          (''min'', toJs mn),
          (''code'', code),
          (''calc'', orElse calc JNull),
          (''type'', orElse ty (JStr unknownType))]) ''range_valid'' (JBool (validateRange mn mx))"
  using assms by (auto simp: processValueTry_def Let_def split: bind_splits)

lemma those_map_None_iff: "those (map f xs) = None \<longleftrightarrow> (\<exists>x\<in>set xs. f x = None)"
  by (induction xs) (auto split: option.splits)




subsection \<open>The samples, evaluated\<close>

lemmas eval_defs =
  obj_def dot_def js_def orElse_def decodeUTF8_def latin1_def isHexDigit_def hexValue_def
  parseNumber_def parseFloat_def sensorTypes_def unknownType_def processValueTry_def
  processValue_def processValueArray_def determineSensorStatus_def processSingleSensor_def
  processSensorDataArray_def formatValue_def formatForMqtt_def processAndFormat_def
  objectPrototypeKeys_def demoValue_def demoReading_def demoNow_def demoPlatform_def

lemmas svc_defs =
  demoService_def demoRedis_def demoMqtt_def demoConfig_def redisIsReady_def mqttIsReady_def
  getSensorData_def processSensorData_def processSensorDataTry_def pollTick_def

lemmas mqtt_defs =
  publishOne_def publishSensorData_def clientPublish_def seninfTopic_def seninfPayload_def
  demoMqtt_def demoConfig_def


lemma demoValue_processed:
  "processValue demoPlatform demoValue =
     obj [(''_id'', JStr (js ''603db20ab7d71486ab441e20'')),
          (''name'', JStr (js ''temp'')),
          (''max'', JNum (Num 60)),
          (''min'', JNum (Num (- 1))),
          (''code'', JStr (js ''A'')),
          (''calc'', JNull),
          (''type'', JStr [0x6EAB, 0x5EA6]),
          (''range_valid'', JBool True)]"
  by (simp add: eval_defs)

lemma demo_envelopes:
  "processAndFormat demoPlatform demoNow (JArr [demoReading 1, demoReading 2])
     = [demoEnvelope 1, demoEnvelope 2]"
  by (simp add: eval_defs demoEnvelope_def)

lemma demoEnvelope_name:
  "resolveDeviceName P (demoEnvelope a) = Inr (JStr (js ''16A0885024''))"
  by (simp add: resolveDeviceName_def demoEnvelope_def dot_obj truthy_obj js_def)

lemma demoEnvelope_message:
  "seninfMessage demoPlatform demoConfig demoNow (demoEnvelope a)
     = Some (js ''device/16A0885024/seninf'', seninfPayload demoConfig demoNow (demoEnvelope a))"
  by (simp add: seninfMessage_def demoEnvelope_name seninfTopic_def demoConfig_def js_def)


section \<open>Properties\<close>

subsection \<open>C1: messages per batch\<close>

text \<open>
  Claim C1, as stated, fails: for the two sample readings of one device, the batch publish
  of the poll cycle hands two messages to the client, not one.
\<close>

theorem publishBatchSensorData_two_messages:
  "map_option (length \<circ> sent)
     (mqttClient (snd (publishBatchSensorData demoPlatform demoNow (demoMqtt None)
        (processAndFormat demoPlatform demoNow (JArr [demoReading 1, demoReading 2])))))
     = Some 2"
  by (simp add: demo_envelopes demoEnvelope_name mqtt_defs)

text \<open>
  On a connected service an entry whose name converts reaches the client, on the topic of
  that name, and the result tells what the broker answered.
\<close>

lemma publishOne_connected:
  assumes "mqttIsConnected ms" and "mqttClient ms = Some c" and "toStringJ P n = Some t"
  shows "publishOne P now ms n d =
           (case broker c (seninfTopic (mqttConfig ms) t) (seninfPayload (mqttConfig ms) now d) of
              None \<Rightarrow> Fulfilled JUndefined
            | Some e \<Rightarrow> Fulfilled (obj [(''deviceName'', n), (''error'', JStr (message e))]),
            ms\<lparr>mqttClient := Some (c\<lparr>sent := sent c @
               [(seninfTopic (mqttConfig ms) t, seninfPayload (mqttConfig ms) now d)]\<rparr>)\<rparr>)"
  using assms
  by (auto simp: publishOne_def publishSensorData_def clientPublish_def split: option.splits)

text \<open>
  Claim C1, amended: on a connected service, \<open>publishBatchSensorData\<close> hands exactly one
  message per entry to the client, behind those sent before and in the order of the
  entries; the message of an entry has the topic \<open>{prefix}/{name}/seninf\<close> of the entry's
  own device name and the entry itself, with \<open>timestamp\<close> and \<open>published_by\<close>, as payload;
  and it returns one result per entry. This holds whenever the device name of every entry
  resolves and converts to a string. Nothing is merged into one envelope.
\<close>

theorem publishBatchSensorData_one_message_per_reading:
  assumes "mqttIsConnected ms" and "mqttClient ms = Some c"
    and "\<forall>d\<in>set ds. seninfMessage P (mqttConfig ms) now d \<noteq> None"
  shows "\<exists>results ms' c' new.
           publishBatchSensorData P now ms ds = (Inr results, ms') \<and>
           length results = length ds \<and>
           mqttIsConnected ms' \<and> mqttConfig ms' = mqttConfig ms \<and>
           mqttClient ms' = Some c' \<and> broker c' = broker c \<and>
           sent c' = sent c @ new \<and>
           map Some new = map (seninfMessage P (mqttConfig ms) now) ds"
  using assms
proof (induction ds arbitrary: ms c)
  case Nil
  then show ?case by simp
next
  case (Cons d ds)
  from Cons.prems(3) obtain n t where
    n: "resolveDeviceName P d = Inr n" "toStringJ P n = Some t"
    by (auto simp: seninfMessage_def split: sum.splits option.splits)
  let ?m = "(seninfTopic (mqttConfig ms) t, seninfPayload (mqttConfig ms) now d)"
  let ?ms1 = "ms\<lparr>mqttClient := Some (c\<lparr>sent := sent c @ [?m]\<rparr>)\<rparr>"
  from publishOne_connected[OF Cons.prems(1,2) n(2), of now d] obtain r where
    one: "publishOne P now ms n d = (r, ?ms1)"
    by simp
  have m: "seninfMessage P (mqttConfig ms) now d = Some ?m"
    by (simp add: seninfMessage_def n)
  have pre: "mqttIsConnected ?ms1" "mqttClient ?ms1 = Some (c\<lparr>sent := sent c @ [?m]\<rparr>)"
    "\<forall>d\<in>set ds. seninfMessage P (mqttConfig ?ms1) now d \<noteq> None"
    using Cons.prems(1,3) by simp_all
  from Cons.IH[OF pre] obtain results ms' c' new where
    rest: "publishBatchSensorData P now ?ms1 ds = (Inr results, ms')"
      "length results = length ds" "mqttIsConnected ms'" "mqttConfig ms' = mqttConfig ms"
      "mqttClient ms' = Some c'" "broker c' = broker c"
      "sent c' = (sent c @ [?m]) @ new"
      "map Some new = map (seninfMessage P (mqttConfig ms) now) ds"
    by auto
  have "publishBatchSensorData P now ms (d # ds) = (Inr (r # results), ms')"
    by (simp add: n(1) one rest(1))
  moreover have "length (r # results) = length (d # ds)"
    using rest(2) by simp
  moreover have "sent c' = sent c @ (?m # new)"
    using rest(7) by simp
  moreover have "map Some (?m # new) = map (seninfMessage P (mqttConfig ms) now) (d # ds)"
    using rest(8) m by simp
  ultimately show ?case
    using rest(3,4,5,6) by blast
qed

text \<open>
  The two sample envelopes on a connected sample service: two messages, both on the topic
  \<open>device/16A0885024/seninf\<close>, the first with the first envelope, the second with the second.
\<close>

theorem publishBatchSensorData_one_message_per_reading_witness:
  "mqttIsConnected (demoMqtt None) \<and>
   seninfMessage demoPlatform (mqttConfig (demoMqtt None)) demoNow (demoEnvelope 1) \<noteq> None \<and>
   seninfMessage demoPlatform (mqttConfig (demoMqtt None)) demoNow (demoEnvelope 2) \<noteq> None \<and>
   (\<exists>results ms' c'.
      publishBatchSensorData demoPlatform demoNow (demoMqtt None) [demoEnvelope 1, demoEnvelope 2]
        = (Inr results, ms') \<and>
      length results = 2 \<and>
      mqttClient ms' = Some c' \<and>
      sent c' =
        [(js ''device/16A0885024/seninf'', seninfPayload demoConfig demoNow (demoEnvelope 1)),
         (js ''device/16A0885024/seninf'', seninfPayload demoConfig demoNow (demoEnvelope 2))])"
proof -
  let ?c = "\<lparr>clientConnected = True, broker = (\<lambda>topic payload. None), sent = []\<rparr>"
  have a: "mqttIsConnected (demoMqtt None)" "mqttClient (demoMqtt None) = Some ?c"
    by (simp_all add: demoMqtt_def)
  have cfg: "mqttConfig (demoMqtt None) = demoConfig"
    by (simp add: demoMqtt_def)
  have b: "\<forall>d\<in>set [demoEnvelope 1, demoEnvelope 2].
             seninfMessage demoPlatform (mqttConfig (demoMqtt None)) demoNow d \<noteq> None"
    by (simp add: cfg demoEnvelope_message)
  from publishBatchSensorData_one_message_per_reading[OF a b]
  obtain results ms' c' new where
    h: "publishBatchSensorData demoPlatform demoNow (demoMqtt None) [demoEnvelope 1, demoEnvelope 2]
          = (Inr results, ms')"
       "length results = length [demoEnvelope 1, demoEnvelope 2]"
       "mqttClient ms' = Some c'" "sent c' = sent ?c @ new"
       "map Some new = map (seninfMessage demoPlatform (mqttConfig (demoMqtt None)) demoNow)
                         [demoEnvelope 1, demoEnvelope 2]"
    by blast
  have e: "map (seninfMessage demoPlatform (mqttConfig (demoMqtt None)) demoNow)
              [demoEnvelope 1, demoEnvelope 2] =
           map Some
        [(js ''device/16A0885024/seninf'', seninfPayload demoConfig demoNow (demoEnvelope 1)),
         (js ''device/16A0885024/seninf'', seninfPayload demoConfig demoNow (demoEnvelope 2))]"
    by (simp add: cfg demoEnvelope_message)
  from h(5) have "new =
        [(js ''device/16A0885024/seninf'', seninfPayload demoConfig demoNow (demoEnvelope 1)),
         (js ''device/16A0885024/seninf'', seninfPayload demoConfig demoNow (demoEnvelope 2))]"
    unfolding e by (rule map_injective) simp
  with h(1-4) a(1) b show ?thesis
    by auto
qed

text \<open>
  The single envelope of the claim is what the other batch operation builds: it hands one
  message to the client, with one entry per reading under \<open>sensors\<close>.
\<close>

lemma publishBatchSensorDataWithDeviceName_one_message:
  assumes "mqttIsConnected ms" and "mqttClient ms = Some c"
    and "those (map sensorEntry ds) = Some sensors" and "toStringJ P n = Some t"
  shows "\<exists>r payload.
           publishBatchSensorDataWithDeviceName P now ms ds n =
             (r, ms\<lparr>mqttClient := Some (c\<lparr>sent := sent c @
                [(seninfTopic (mqttConfig ms) t, payload)]\<rparr>)\<rparr>) \<and>
           dot payload ''sensors'' = Some (JArr sensors) \<and> length sensors = length ds"
  using assms those_length[OF assms(3)]
  by (auto simp: publishBatchSensorDataWithDeviceName_def clientPublish_def dot_obj
      split: option.splits)

subsection \<open>C2: required fields\<close>

text \<open>
  Claim C2 asks for a reading with serial and address present to be normalised, a numeric
  address 0 included. The guard of \<open>processSingleSensor\<close> tests \<open>!sensor.ADDRESS\<close>, and 0
  is falsy: the reading with serial S1 and address 0 is answered with \<open>null\<close>, under the
  warning that a required field is missing.
\<close>

theorem processSingleSensor_address_zero:
  "processSingleSensor P now (obj [(''SN'', JStr (js ''S1'')), (''ADDRESS'', JNum (Num 0))]) = JNull"
  by (simp add: processSingleSensor_def dot_obj truthy_obj typeofObject_obj)

text \<open>The same reading on the sample platform and clock.\<close>

theorem processSingleSensor_address_zero_witness:
  "processSingleSensor demoPlatform demoNow
     (obj [(''SN'', JStr (js ''S1'')), (''ADDRESS'', JNum (Num 0))]) = JNull"
  using processSingleSensor_address_zero[of demoPlatform demoNow] by simp

text \<open>What the guard really tests: the reading is an object and both fields are truthy.\<close>

lemma processSingleSensor_null_iff:
  "processSingleSensor P now sensor \<noteq> JNull \<longleftrightarrow>
     truthy sensor \<and> typeofObject sensor \<and>
     (\<exists>sn address. dot sensor ''SN'' = Some sn \<and> truthy sn \<and>
                    dot sensor ''ADDRESS'' = Some address \<and> truthy address)"
proof (cases "truthy sensor \<and> typeofObject sensor")
  case False
  then show ?thesis by (auto simp: processSingleSensor_def)
next
  case True
  then have nn: "sensor \<noteq> JNull" "sensor \<noteq> JUndefined" by auto
  then obtain sn address des name profile v where
    f: "dot sensor ''SN'' = Some sn" "dot sensor ''ADDRESS'' = Some address"
       "dot sensor ''DES'' = Some des" "dot sensor ''name'' = Some name"
       "dot sensor ''profile'' = Some profile" "dot sensor ''value'' = Some v"
    by (metis dot_None_iff not_Some_eq)
  show ?thesis
    using True f by (simp add: processSingleSensor_def Let_def setProp_obj_not_null)
qed

text \<open>A reading without serial or without address is answered with \<open>null\<close>; nothing is thrown.\<close>

lemma processSingleSensor_missing_field:
  assumes "dot sensor ''SN'' = Some JUndefined \<or> dot sensor ''ADDRESS'' = Some JUndefined"
  shows "processSingleSensor P now sensor = JNull"
  using assms processSingleSensor_null_iff[of P now sensor] by auto

subsection \<open>C3: the range flag\<close>

lemma parseNumber_not_NaN: "parseNumber P v = Some r \<Longrightarrow> r \<noteq> Number NaN"
  by (auto simp: parseNumber_def split: if_splits bind_splits)

text \<open>An absent, empty or non-numeric bound is parsed to \<open>null\<close>.\<close>

lemma parseNumber_null_cases:
  "parseNumber P JUndefined = Some Null"
  "parseNumber P JNull = Some Null"
  "parseNumber P (JStr []) = Some Null"
  "parseFloat P v = Some NaN \<Longrightarrow> parseNumber P v = Some Null"
  by (simp_all add: parseNumber_def)

text \<open>
  \<open>parseNumber\<close> throws only on a bound that is neither a number nor \<open>null\<close>, \<open>undefined\<close> or
  the empty string and whose conversion to a string throws.
\<close>

lemma parseNumber_None_iff:
  "parseNumber P x = None \<longleftrightarrow>
     x \<noteq> JNull \<and> x \<noteq> JUndefined \<and> x \<noteq> JStr [] \<and> (\<forall>n. x \<noteq> JNum n) \<and> toStringJ P x = None"
  by (cases x) (auto simp: parseNumber_def parseFloat_def split: bind_splits)

lemma numLess_irrefl: "\<not> numLess a a"
  by (cases a) auto

lemma validateRange_iff:
  "validateRange mn mx \<longleftrightarrow> (\<exists>a b. mn = Number a \<and> mx = Number b \<and> numLess a b)"
  by (cases mn; cases mx) auto

lemma getProp_sensorTypes_total: "getProp sensorTypes key \<noteq> None"
  by (simp add: sensorTypes_def obj_def)

text \<open>When the \<open>try\<close> block of the callback throws.\<close>

lemma processValueTry_None_iff:
  "processValueTry P v = None \<longleftrightarrow>
     v = JNull \<or> v = JUndefined \<or>
     (\<exists>x. dot v ''max'' = Some x \<and> parseNumber P x = None) \<or>
     (\<exists>x. dot v ''min'' = Some x \<and> parseNumber P x = None) \<or>
     (\<exists>x. dot v ''code'' = Some x \<and> toStringJ P x = None)"
proof (cases "v = JNull \<or> v = JUndefined")
  case True
  then show ?thesis by (auto simp: processValueTry_def dot_def)
next
  case False
  then obtain a b c d e f where
    f: "dot v ''_id'' = Some a" "dot v ''name'' = Some b" "dot v ''max'' = Some c"
       "dot v ''min'' = Some d" "dot v ''code'' = Some e" "dot v ''calc'' = Some f"
    by (metis dot_None_iff not_Some_eq)
  show ?thesis
    using False f
    by (auto simp: processValueTry_def Let_def getProp_sensorTypes_total split: bind_splits)
qed

lemma processValue_fallback: "processValueTry P v = None \<Longrightarrow> processValue P v = v"
  by (simp add: processValue_def)

lemma range_valid_of_try:
  assumes "processValueTry P v = Some r"
  shows "\<exists>rawMin rawMax mn mx.
           dot v ''min'' = Some rawMin \<and> parseNumber P rawMin = Some mn \<and>
           dot v ''max'' = Some rawMax \<and> parseNumber P rawMax = Some mx \<and>
           mn \<noteq> Number NaN \<and> mx \<noteq> Number NaN \<and>
           dot r ''min'' = Some (toJs mn) \<and> dot r ''max'' = Some (toJs mx) \<and>
           dot r ''range_valid'' =
             Some (JBool (mn \<noteq> Null \<and> mx \<noteq> Null \<and>
                          (\<exists>a b. mn = Number a \<and> mx = Number b \<and> numLess a b))) \<and>
           (mn = mx \<longrightarrow> dot r ''range_valid'' = Some (JBool False))"
proof -
  from assms obtain rawMin rawMax mn mx where
    raw: "dot v ''min'' = Some rawMin" "dot v ''max'' = Some rawMax" and
    parsed: "parseNumber P rawMin = Some mn" "parseNumber P rawMax = Some mx" and
    flds: "dot r ''min'' = Some (toJs mn)" "dot r ''max'' = Some (toJs mx)"
      "dot r ''range_valid'' = Some (JBool (validateRange mn mx))"
    by (elim processValueTry_SomeD) (simp add: dot_setProp_obj dot_obj)
  have nn: "mn \<noteq> Number NaN" "mx \<noteq> Number NaN"
    using parsed by (auto dest: parseNumber_not_NaN)
  have rv: "dot r ''range_valid'' =
      Some (JBool (mn \<noteq> Null \<and> mx \<noteq> Null \<and>
                   (\<exists>a b. mn = Number a \<and> mx = Number b \<and> numLess a b)))"
    unfolding flds(3) by (auto simp: validateRange_iff)
  have eq: "mn = mx \<longrightarrow> dot r ''range_valid'' = Some (JBool False)"
    unfolding flds(3) by (auto simp: validateRange_iff numLess_irrefl)
  from raw parsed nn flds(1,2) rv eq show ?thesis
    by blast
qed

text \<open>
  Claim C3, as stated, fails on an entry that the \<open>catch\<close> of the callback hands back. The
  code of this entry is an object with an own \<open>toString\<close> entry, so looking up its type
  throws; the raw entry is returned as it is, with \<open>range_valid\<close> true although \<open>min\<close> is
  5 and \<open>max\<close> is 3.
\<close>

theorem range_valid_true_on_raw_entry:
  "processValueArray demoPlatform
     (JArr [obj [(''min'', JNum (Num 5)), (''max'', JNum (Num 3)),
                 (''code'', obj [(''toString'', JNum (Num 1))]),
                 (''range_valid'', JBool True)]])
     = [obj [(''min'', JNum (Num 5)), (''max'', JNum (Num 3)),
             (''code'', obj [(''toString'', JNum (Num 1))]),
             (''range_valid'', JBool True)]] \<and>
   dot (obj [(''min'', JNum (Num 5)), (''max'', JNum (Num 3)),
             (''code'', obj [(''toString'', JNum (Num 1))]),
             (''range_valid'', JBool True)]) ''range_valid'' = Some (JBool True) \<and>
   \<not> numLess (Num 5) (Num 3)"
  by (simp add: eval_defs)

text \<open>
  Claim C3, amended. \<open>processValueArray\<close> maps the callback \<open>processValue\<close> over the
  entries. The callback hands an entry back unchanged exactly when its \<open>try\<close> block throws:
  the entry is \<open>null\<close> or \<open>undefined\<close>, or \<open>parseNumber\<close> throws on \<open>max\<close> or \<open>min\<close>, or
  \<open>code\<close> cannot be converted to a string. For every other entry, \<open>min\<close> and \<open>max\<close> of
  the result are what \<open>parseNumber\<close> made of the raw bounds (\<open>null\<close> or a number that is not
  NaN), and \<open>range_valid\<close> is true if and only if both are numbers and \<open>min\<close> is strictly
  below \<open>max\<close>; it is false when the two are equal.
\<close>

theorem range_valid_of_normalised_value:
  "processValueArray P (JArr vs) = map (processValue P) vs \<and>
   ((processValueTry P v = None) =
      (v = JNull \<or> v = JUndefined \<or>
       (\<exists>x. dot v ''max'' = Some x \<and> parseNumber P x = None) \<or>
       (\<exists>x. dot v ''min'' = Some x \<and> parseNumber P x = None) \<or>
       (\<exists>x. dot v ''code'' = Some x \<and> toStringJ P x = None))) \<and>
   (processValueTry P v = None \<longrightarrow> processValue P v = v) \<and>
   (processValueTry P v \<noteq> None \<longrightarrow>
      (\<exists>rawMin rawMax mn mx.
           dot v ''min'' = Some rawMin \<and> parseNumber P rawMin = Some mn \<and>
           dot v ''max'' = Some rawMax \<and> parseNumber P rawMax = Some mx \<and>
           mn \<noteq> Number NaN \<and> mx \<noteq> Number NaN \<and>
           dot (processValue P v) ''min'' = Some (toJs mn) \<and>
           dot (processValue P v) ''max'' = Some (toJs mx) \<and>
           dot (processValue P v) ''range_valid'' =
             Some (JBool (mn \<noteq> Null \<and> mx \<noteq> Null \<and>
                          (\<exists>a b. mn = Number a \<and> mx = Number b \<and> numLess a b))) \<and>
           (mn = mx \<longrightarrow> dot (processValue P v) ''range_valid'' = Some (JBool False))))"
proof -
  have a: "processValueArray P (JArr vs) = map (processValue P) vs"
    by (simp add: processValueArray_def)
  have c: "processValueTry P v = None \<longrightarrow> processValue P v = v"
    by (simp add: processValue_fallback)
  have d: "processValueTry P v \<noteq> None \<longrightarrow>
      (\<exists>rawMin rawMax mn mx.
           dot v ''min'' = Some rawMin \<and> parseNumber P rawMin = Some mn \<and>
           dot v ''max'' = Some rawMax \<and> parseNumber P rawMax = Some mx \<and>
           mn \<noteq> Number NaN \<and> mx \<noteq> Number NaN \<and>
           dot (processValue P v) ''min'' = Some (toJs mn) \<and>
           dot (processValue P v) ''max'' = Some (toJs mx) \<and>
           dot (processValue P v) ''range_valid'' =
             Some (JBool (mn \<noteq> Null \<and> mx \<noteq> Null \<and>
                          (\<exists>a b. mn = Number a \<and> mx = Number b \<and> numLess a b))) \<and>
           (mn = mx \<longrightarrow> dot (processValue P v) ''range_valid'' = Some (JBool False)))"
  proof
    assume "processValueTry P v \<noteq> None"
    then obtain r where r: "processValueTry P v = Some r" by auto
    then have "processValue P v = r" by (simp add: processValue_def)
    with range_valid_of_try[OF r] show "\<exists>rawMin rawMax mn mx.
           dot v ''min'' = Some rawMin \<and> parseNumber P rawMin = Some mn \<and>
           dot v ''max'' = Some rawMax \<and> parseNumber P rawMax = Some mx \<and>
           mn \<noteq> Number NaN \<and> mx \<noteq> Number NaN \<and>
           dot (processValue P v) ''min'' = Some (toJs mn) \<and>
           dot (processValue P v) ''max'' = Some (toJs mx) \<and>
           dot (processValue P v) ''range_valid'' =
             Some (JBool (mn \<noteq> Null \<and> mx \<noteq> Null \<and>
                          (\<exists>a b. mn = Number a \<and> mx = Number b \<and> numLess a b))) \<and>
           (mn = mx \<longrightarrow> dot (processValue P v) ''range_valid'' = Some (JBool False))"
      by simp
  qed
  from a processValueTry_None_iff[of P v] c d show ?thesis by blast
qed

text \<open>
  The sample value is normalised, with the bounds -1 and 60 and a true range flag; a
  \<open>null\<close> entry is handed back.
\<close>

theorem range_valid_of_normalised_value_witness:
  "processValueArray demoPlatform (JArr [demoValue]) = [processValue demoPlatform demoValue] \<and>
   processValueTry demoPlatform demoValue \<noteq> None \<and>
   dot (processValue demoPlatform demoValue) ''min'' = Some (JNum (Num (- 1))) \<and>
   dot (processValue demoPlatform demoValue) ''max'' = Some (JNum (Num 60)) \<and>
   dot (processValue demoPlatform demoValue) ''range_valid'' = Some (JBool True) \<and>
   processValueTry demoPlatform JNull = None \<and>
   processValue demoPlatform JNull = JNull"
proof -
  let ?r = "processValue demoPlatform demoValue"
  note t = range_valid_of_normalised_value[of demoPlatform "[demoValue]" demoValue]
  have ok: "processValueTry demoPlatform demoValue \<noteq> None"
    by (simp add: eval_defs)
  from t have arr: "processValueArray demoPlatform (JArr [demoValue]) = [?r]" by simp
  from t ok obtain rawMin rawMax mn mx where
    h: "dot demoValue ''min'' = Some rawMin" "parseNumber demoPlatform rawMin = Some mn"
       "dot demoValue ''max'' = Some rawMax" "parseNumber demoPlatform rawMax = Some mx"
       "dot ?r ''min'' = Some (toJs mn)" "dot ?r ''max'' = Some (toJs mx)"
       "dot ?r ''range_valid'' =
          Some (JBool (mn \<noteq> Null \<and> mx \<noteq> Null \<and>
                       (\<exists>a b. mn = Number a \<and> mx = Number b \<and> numLess a b)))"
    by blast
  from h(1,3) have raw: "rawMin = JNum (Num (- 1))" "rawMax = JNum (Num 60)"
    by (simp_all add: demoValue_def dot_obj)
  from h(2,4) have p: "mn = Number (Num (- 1))" "mx = Number (Num 60)"
    unfolding raw by (simp_all add: parseNumber_def parseFloat_def)
  from h(5,6,7) have f: "dot ?r ''min'' = Some (JNum (Num (- 1)))" "dot ?r ''max'' = Some (JNum (Num 60))"
    "dot ?r ''range_valid'' = Some (JBool True)"
    unfolding p by simp_all
  note u = range_valid_of_normalised_value[of demoPlatform "[]" JNull]
  from u have n: "processValueTry demoPlatform JNull = None" by blast
  with u have n': "processValue demoPlatform JNull = JNull" by blast
  from arr ok f n n' show ?thesis by simp
qed

subsection \<open>C4: the status of a reading\<close>

text \<open>The status of a sensor object whose name and description are strings.\<close>

lemma determineSensorStatus_cases:
  assumes v: "dot sensor ''value'' = Some (JArr vs)"
    and n: "dot sensor ''name'' = Some (JStr name)"
    and d: "dot sensor ''DES'' = Some (JStr des)"
  shows "determineSensorStatus sensor =
           JStr (js (if vs = [] then ''no_values''
                     else if \<exists>x\<in>set vs. x = JNull \<or> x = JUndefined then ''error''
                     else if \<not> (\<exists>x\<in>set vs. rangeValidOf x) then ''invalid_range''
                     else if name = [] \<or> des = [] then ''incomplete_info''
                     else ''active''))"
proof (cases "\<exists>x\<in>set vs. x = JNull \<or> x = JUndefined")
  case True
  then have ne: "vs \<noteq> []" by auto
  from True have "those (map (\<lambda>x. dot x ''range_valid'') vs) = None"
    by (simp add: those_map_None_iff dot_None_iff)
  then show ?thesis
    unfolding determineSensorStatus_def
    using True ne by (simp add: v dot_JArr_length)
next
  case False
  then have total: "\<forall>x\<in>set vs. dot x ''range_valid'' \<noteq> None"
    by (simp add: dot_None_iff)
  have flags: "those (map (\<lambda>x. dot x ''range_valid'') vs) =
                 Some (map (\<lambda>x. the (dot x ''range_valid'')) vs)"
    using total by (rule those_map_total)
  have rv: "\<And>x. x \<in> set vs \<Longrightarrow> truthy (the (dot x ''range_valid'')) = rangeValidOf x"
    using total by (auto simp: rangeValidOf_def)
  have none: "(filter truthy (map (\<lambda>x. the (dot x ''range_valid'')) vs) = []) =
                (\<not> (\<exists>x\<in>set vs. rangeValidOf x))"
    using rv by (auto simp: filter_empty_conv)
  show ?thesis
    unfolding determineSensorStatus_def
    using False by (simp add: v n d dot_JArr_length flags none)
qed

text \<open>The \<open>value\<close> list of a reading holds \<open>null\<close> exactly where the raw list does.\<close>

lemma processValue_null_iff:
  "processValue P x = JNull \<longleftrightarrow> x = JNull"
  "processValue P x = JUndefined \<longleftrightarrow> x = JUndefined"
proof -
  show "processValue P x = JNull \<longleftrightarrow> x = JNull"
  proof (cases "processValueTry P x")
    case None
    then show ?thesis by (simp add: processValue_def)
  next
    case (Some r)
    then have "x \<noteq> JNull"
      by (auto simp: processValueTry_def dot_def)
    moreover from Some have "r \<noteq> JNull"
      by (elim processValueTry_SomeD) (simp add: obj_def)
    ultimately show ?thesis using Some by (simp add: processValue_def)
  qed
  show "processValue P x = JUndefined \<longleftrightarrow> x = JUndefined"
  proof (cases "processValueTry P x")
    case None
    then show ?thesis by (simp add: processValue_def)
  next
    case (Some r)
    then have "x \<noteq> JUndefined"
      by (auto simp: processValueTry_def dot_def)
    moreover from Some have "r \<noteq> JUndefined"
      by (elim processValueTry_SomeD) (simp add: obj_def)
    ultimately show ?thesis using Some by (simp add: processValue_def)
  qed
qed

text \<open>
  Claim C4, as stated, fails on a reading whose raw \<open>value\<close> list holds a \<open>null\<close> entry
  beside the sample value: the \<open>catch\<close> of \<open>processValueArray\<close> hands the \<open>null\<close> back, the
  filter of \<open>determineSensorStatus\<close> throws on it, and the status is \<open>error\<close>, although one
  value has a true range flag and name and description are not empty.
\<close>

theorem status_error_despite_valid_value:
  "dot (processSingleSensor demoPlatform demoNow
          (obj [(''SN'', JStr (js ''16A0885024'')), (''DES'', JStr (js ''rear'')),
                (''ADDRESS'', JNum (Num 1)), (''name'', JStr (js ''thermometer'')),
                (''value'', JArr [JNull, demoValue])])) ''value''
     = Some (JArr [JNull, processValue demoPlatform demoValue]) \<and>
   rangeValidOf (processValue demoPlatform demoValue) \<and>
   dot (processSingleSensor demoPlatform demoNow
          (obj [(''SN'', JStr (js ''16A0885024'')), (''DES'', JStr (js ''rear'')),
                (''ADDRESS'', JNum (Num 1)), (''name'', JStr (js ''thermometer'')),
                (''value'', JArr [JNull, demoValue])])) ''name''
     = Some (JStr (js ''thermometer'')) \<and>
   dot (processSingleSensor demoPlatform demoNow
          (obj [(''SN'', JStr (js ''16A0885024'')), (''DES'', JStr (js ''rear'')),
                (''ADDRESS'', JNum (Num 1)), (''name'', JStr (js ''thermometer'')),
                (''value'', JArr [JNull, demoValue])])) ''DES''
     = Some (JStr (js ''rear'')) \<and>
   dot (processSingleSensor demoPlatform demoNow
          (obj [(''SN'', JStr (js ''16A0885024'')), (''DES'', JStr (js ''rear'')),
                (''ADDRESS'', JNum (Num 1)), (''name'', JStr (js ''thermometer'')),
                (''value'', JArr [JNull, demoValue])])) ''status''
     = Some (JStr (js ''error''))"
proof -
  have rv: "rangeValidOf (processValue demoPlatform demoValue)"
    by (simp add: demoValue_processed rangeValidOf_def dot_obj)
  show ?thesis
    by (simp add: rv) (simp add: eval_defs)
qed

text \<open>
  Claim C4, amended. For every reading that \<open>processSingleSensor\<close> returns, its \<open>value\<close>
  list is what \<open>processValueArray\<close> made of the raw list, and its status is \<open>no_values\<close>
  when that list is empty, else \<open>error\<close> when it holds a \<open>null\<close> (or \<open>undefined\<close>) entry,
  else \<open>invalid_range\<close> when no entry has a true range flag, else \<open>incomplete_info\<close> when
  the name or the description is empty, else \<open>active\<close>. So the status is \<open>active\<close> if and
  only if no entry is \<open>null\<close>, some entry has a true range flag, and name and description
  are both non-empty.
\<close>

theorem status_by_priority_or_error:
  assumes "processSingleSensor P now raw = r" and "r \<noteq> JNull"
  shows "\<exists>rawValue vs name des.
           dot raw ''value'' = Some rawValue \<and>
           vs = processValueArray P (orElse rawValue (JArr [])) \<and>
           dot r ''value'' = Some (JArr vs) \<and>
           dot r ''name'' = Some (JStr name) \<and> dot r ''DES'' = Some (JStr des) \<and>
           dot r ''status'' =
             Some (JStr (js (if vs = [] then ''no_values''
                             else if \<exists>x\<in>set vs. x = JNull \<or> x = JUndefined then ''error''
                             else if \<not> (\<exists>x\<in>set vs. rangeValidOf x) then ''invalid_range''
                             else if name = [] \<or> des = [] then ''incomplete_info''
                             else ''active''))) \<and>
           (dot r ''status'' = Some (JStr (js ''active'')) \<longleftrightarrow>
              \<not> (\<exists>x\<in>set vs. x = JNull \<or> x = JUndefined) \<and>
              (\<exists>x\<in>set vs. rangeValidOf x) \<and> name \<noteq> [] \<and> des \<noteq> [])"
proof -
  from assms have ok: "truthy raw" "typeofObject raw"
    using processSingleSensor_null_iff by blast+
  then have "raw \<noteq> JNull" "raw \<noteq> JUndefined" by auto
  then obtain sn address des0 name0 profile v where
    f: "dot raw ''SN'' = Some sn" "dot raw ''ADDRESS'' = Some address"
       "dot raw ''DES'' = Some des0" "dot raw ''name'' = Some name0"
       "dot raw ''profile'' = Some profile" "dot raw ''value'' = Some v"
    by (metis dot_None_iff not_Some_eq)
  have tr: "truthy sn" "truthy address"
    using assms processSingleSensor_null_iff[of P now raw] f by auto
  define name where "name = decodeUTF8 (orElse name0 (JStr []))"
  define des where "des = decodeUTF8 (orElse des0 (JStr []))"
  define vs where "vs = processValueArray P (orElse v (JArr []))"
  define decodedSensor where "decodedSensor = obj
     [(''SN'', sn), (''DES'', JStr des), (''ADDRESS'', address), (''name'', JStr name),
      (''profile'', orElse profile (JStr [])),
      (''value'', JArr vs),
      (''processed_at'', JStr now)]"
  have r: "r = setProp decodedSensor ''status'' (determineSensorStatus decodedSensor)"
    using assms(1) ok f tr
    by (simp add: processSingleSensor_def Let_def decodedSensor_def name_def des_def vs_def)
  have fields: "dot decodedSensor ''value'' = Some (JArr vs)"
    "dot decodedSensor ''name'' = Some (JStr name)"
    "dot decodedSensor ''DES'' = Some (JStr des)"
    unfolding decodedSensor_def by (simp_all add: dot_obj)
  have st: "dot r ''status'' = Some (determineSensorStatus decodedSensor)"
    unfolding r decodedSensor_def by (simp add: dot_setProp_obj)
  have rf: "dot r ''value'' = Some (JArr vs)"
    "dot r ''name'' = Some (JStr name)" "dot r ''DES'' = Some (JStr des)"
    unfolding r decodedSensor_def by (simp_all add: dot_setProp_obj dot_obj)
  note cases = determineSensorStatus_cases[OF fields]
  have prio: "dot r ''status'' =
             Some (JStr (js (if vs = [] then ''no_values''
                             else if \<exists>x\<in>set vs. x = JNull \<or> x = JUndefined then ''error''
                             else if \<not> (\<exists>x\<in>set vs. rangeValidOf x) then ''invalid_range''
                             else if name = [] \<or> des = [] then ''incomplete_info''
                             else ''active'')))"
    unfolding st cases ..
  have act: "dot r ''status'' = Some (JStr (js ''active'')) \<longleftrightarrow>
              \<not> (\<exists>x\<in>set vs. x = JNull \<or> x = JUndefined) \<and>
              (\<exists>x\<in>set vs. rangeValidOf x) \<and> name \<noteq> [] \<and> des \<noteq> []"
    unfolding prio by (auto simp: js_eq_iff)
  from f(6) vs_def rf prio act show ?thesis by blast
qed

text \<open>The sample reading is active.\<close>

theorem status_by_priority_or_error_witness:
  "processSingleSensor demoPlatform demoNow (demoReading 1) \<noteq> JNull \<and>
   dot (processSingleSensor demoPlatform demoNow (demoReading 1)) ''value'' =
     Some (JArr [processValue demoPlatform demoValue]) \<and>
   dot (processSingleSensor demoPlatform demoNow (demoReading 1)) ''status'' =
     Some (JStr (js ''active''))"
proof -
  let ?r = "processSingleSensor demoPlatform demoNow (demoReading 1)"
  have nn: "?r \<noteq> JNull"
    by (simp add: processSingleSensor_null_iff demoReading_def dot_obj truthy_obj typeofObject_obj js_def)
  have v: "dot ?r ''value'' = Some (JArr [processValue demoPlatform demoValue])"
    by (simp add: eval_defs)
  have ok: "\<not> (\<exists>x\<in>set [processValue demoPlatform demoValue]. x = JNull \<or> x = JUndefined)"
    by (simp add: demoValue_processed obj_def)
  have rv: "rangeValidOf (processValue demoPlatform demoValue)"
    by (simp add: demoValue_processed rangeValidOf_def dot_obj)
  from status_by_priority_or_error[OF refl nn] obtain vs name des where
    h: "dot ?r ''value'' = Some (JArr vs)"
       "dot ?r ''name'' = Some (JStr name)" "dot ?r ''DES'' = Some (JStr des)"
       "dot ?r ''status'' = Some (JStr (js ''active'')) \<longleftrightarrow>
          \<not> (\<exists>x\<in>set vs. x = JNull \<or> x = JUndefined) \<and>
          (\<exists>x\<in>set vs. rangeValidOf x) \<and> name \<noteq> [] \<and> des \<noteq> []"
    by blast
  from h(1) v have vs: "vs = [processValue demoPlatform demoValue]" by simp
  have "dot ?r ''name'' = Some (JStr (js ''thermometer''))" "dot ?r ''DES'' = Some (JStr (js ''rear''))"
    by (simp_all add: eval_defs)
  with h(2,3) have "name \<noteq> []" "des \<noteq> []" by (auto simp: js_def)
  with h(4) rv ok have "dot ?r ''status'' = Some (JStr (js ''active''))"
    unfolding vs by simp
  with nn v show ?thesis by simp
qed

subsection \<open>C5: decoding twice\<close>

text \<open>
  Claim C5, as stated, fails. The input \<open>\x5cx41\<close> (a backslash, then \<open>x5cx41\<close>) holds one
  escape, for the backslash itself; decoding it gives \<open>\x41\<close>, which is again an escape
  and decodes to \<open>A\<close>.
\<close>

theorem decodeUTF8_not_idempotent:
  "decodeUTF8 (JStr (decodeUTF8 (JStr [0x5C, 0x78, 0x35, 0x63, 0x78, 0x34, 0x31])))
     \<noteq> decodeUTF8 (JStr [0x5C, 0x78, 0x35, 0x63, 0x78, 0x34, 0x31])"
  by (simp add: decodeUTF8_def latin1_def isHexDigit_def hexValue_def)

text \<open>The two decoding steps of that input.\<close>

lemma decodeUTF8_twice_values:
  "decodeUTF8 (JStr [0x5C, 0x78, 0x35, 0x63, 0x78, 0x34, 0x31]) = [0x5C, 0x78, 0x34, 0x31]"
  "decodeUTF8 (JStr [0x5C, 0x78, 0x34, 0x31]) = [0x41]"
  by (simp_all add: decodeUTF8_def latin1_def isHexDigit_def hexValue_def)

text \<open>
  Claim C5, amended: a string without an escape pattern is returned unchanged, so decoding
  a second time changes nothing whenever the first result holds no escape pattern.
\<close>

theorem decodeUTF8_fixes_plain_text:
  "(\<not> hasEscape s \<longrightarrow> decodeUTF8 (JStr s) = s) \<and>
   (\<not> hasEscape (decodeUTF8 (JStr s)) \<longrightarrow>
      decodeUTF8 (JStr (decodeUTF8 (JStr s))) = decodeUTF8 (JStr s))"
  by (simp add: decodeUTF8_def)

text \<open>The escaped UTF-8 bytes E6 BA AB followed by an A decode to U+6EAB and A, a fixed point.\<close>

theorem decodeUTF8_fixes_plain_text_witness:
  "\<not> hasEscape [0x5C, 0x78, 0x65, 0x36, 0x5C, 0x78, 0x62, 0x61, 0x5C, 0x78, 0x61, 0x62, 0x41] = False \<and>
   decodeUTF8 (JStr [0x5C, 0x78, 0x65, 0x36, 0x5C, 0x78, 0x62, 0x61, 0x5C, 0x78, 0x61, 0x62, 0x41])
     = [0x6EAB, 0x41] \<and>
   \<not> hasEscape [0x6EAB, 0x41] \<and>
   decodeUTF8 (JStr [0x6EAB, 0x41]) = [0x6EAB, 0x41] \<and>
   decodeUTF8 (JStr (decodeUTF8
      (JStr [0x5C, 0x78, 0x65, 0x36, 0x5C, 0x78, 0x62, 0x61, 0x5C, 0x78, 0x61, 0x62, 0x41])))
     = [0x6EAB, 0x41]"
proof -
  let ?s = "[0x5C, 0x78, 0x65, 0x36, 0x5C, 0x78, 0x62, 0x61, 0x5C, 0x78, 0x61, 0x62, 0x41] :: jsstr"
  have d: "decodeUTF8 (JStr ?s) = [0x6EAB, 0x41]"
    by (simp add: decodeUTF8_def latin1_def isHexDigit_def hexValue_def)
  have e: "\<not> hasEscape ?s = False"
    by (simp add: isHexDigit_def)
  have p: "\<not> hasEscape [0x6EAB, 0x41]"
    by simp
  from decodeUTF8_fixes_plain_text[of "[0x6EAB, 0x41]"] p
  have f: "decodeUTF8 (JStr [0x6EAB, 0x41]) = [0x6EAB, 0x41]" by blast
  from decodeUTF8_fixes_plain_text[of ?s] p
  have g: "decodeUTF8 (JStr (decodeUTF8 (JStr ?s))) = decodeUTF8 (JStr ?s)"
    unfolding d by blast
  from d e p f g show ?thesis by simp
qed

subsection \<open>C6: the type of a value\<close>

lemma ownKeys_sensorTypes: "ownKeys sensorTypes = map js [''A'', ''B'', ''C'', ''S'', ''R'', ''L'']"
  by (simp add: ownKeys_def sensorTypes_def obj_def)

lemma single_char_not_inherited: "length c = 1 \<Longrightarrow> c \<notin> set objectPrototypeKeys"
  by (auto simp: objectPrototypeKeys_def js_def)

lemma getProp_sensorTypes:
  "c \<notin> set objectPrototypeKeys \<Longrightarrow>
   getProp sensorTypes c =
     Some (if c = js ''A'' then JStr [0x6EAB, 0x5EA6]
           else if c = js ''B'' then JStr [0x6FD5, 0x5EA6]
           else if c = js ''C'' then JStr [0x4E8C, 0x6C27, 0x5316, 0x78B3]
           else if c = js ''S'' then JStr [0x8CA0, 0x58D3]
           else if c = js ''R'' then JStr [0x98A8, 0x901F]
           else if c = js ''L'' then JStr [0x98F2, 0x7528, 0x6C34, 0x91CF]
           else JUndefined)"
  by (simp add: sensorTypes_def obj_def)

text \<open>
  Claim C6, as stated, fails at the code I: the unit catalogue knows it (illuminance), the
  processor answers with its default for unknown types.
\<close>

theorem type_unknown_for_catalogued_code:
  "dot (getUnitByCode (JStr (js ''I''))) ''name'' = Some (JStr [0x7167, 0x5EA6]) \<and>
   dot (processValue demoPlatform (obj [(''code'', JStr (js ''I''))])) ''type''
     = Some (JStr unknownType)"
  by (simp add: getUnitByCode_def unit_table_def dot_obj js_eq_iff eval_defs)

text \<open>
  An entry that the \<open>catch\<close> hands back has the type it came with: none here, although
  the code A is in the table.
\<close>

lemma type_of_raw_entry:
  "dot (processValue demoPlatform
          (obj [(''code'', JStr (js ''A'')), (''min'', obj [(''toString'', JNum (Num 1))])])) ''type''
     = Some JUndefined"
  by (simp add: eval_defs)

text \<open>
  Claim C6, amended. For every entry with a one-character code: the callback hands the
  entry back unchanged exactly when \<open>parseNumber\<close> throws on its \<open>max\<close> or \<open>min\<close>; for every
  other such entry the type of the result is the entry of the processor's own table
  \<open>sensorTypes\<close> (codes A, B, C, S, R, L), and it is the default for unknown types exactly
  when the code is none of these six. The unit catalogue is not consulted.
\<close>

theorem type_from_sensorTypes:
  assumes "dot v ''code'' = Some (JStr c)" and "length c = 1"
  shows "((processValueTry P v = None) =
            ((\<exists>x. dot v ''max'' = Some x \<and> parseNumber P x = None) \<or>
             (\<exists>x. dot v ''min'' = Some x \<and> parseNumber P x = None))) \<and>
         (processValueTry P v = None \<longrightarrow> processValue P v = v) \<and>
         (processValueTry P v \<noteq> None \<longrightarrow>
            (c \<in> set (ownKeys sensorTypes) \<longrightarrow>
               dot (processValue P v) ''type'' = getProp sensorTypes c \<and>
               dot (processValue P v) ''type'' \<noteq> Some (JStr unknownType)) \<and>
            (c \<notin> set (ownKeys sensorTypes) \<longrightarrow>
               dot (processValue P v) ''type'' = Some (JStr unknownType)))"
proof -
  have inh: "c \<notin> set objectPrototypeKeys"
    using assms(2) by (rule single_char_not_inherited)
  from assms(1) have nn: "v \<noteq> JNull" "v \<noteq> JUndefined"
    by (auto simp: dot_def)
  have a: "(processValueTry P v = None) =
            ((\<exists>x. dot v ''max'' = Some x \<and> parseNumber P x = None) \<or>
             (\<exists>x. dot v ''min'' = Some x \<and> parseNumber P x = None))"
    using nn assms(1) by (simp add: processValueTry_None_iff)
  have b: "processValueTry P v = None \<longrightarrow> processValue P v = v"
    by (simp add: processValue_fallback)
  have c: "processValueTry P v \<noteq> None \<longrightarrow>
            (c \<in> set (ownKeys sensorTypes) \<longrightarrow>
               dot (processValue P v) ''type'' = getProp sensorTypes c \<and>
               dot (processValue P v) ''type'' \<noteq> Some (JStr unknownType)) \<and>
            (c \<notin> set (ownKeys sensorTypes) \<longrightarrow>
               dot (processValue P v) ''type'' = Some (JStr unknownType))"
  proof
    assume "processValueTry P v \<noteq> None"
    then obtain r where r: "processValueTry P v = Some r" by auto
    then have pv: "processValue P v = r" by (simp add: processValue_def)
    from r obtain code key ty where
      k: "dot v ''code'' = Some code" "toStringJ P code = Some key" and
      ty: "getProp sensorTypes key = Some ty" and
      t: "dot r ''type'' = Some (orElse ty (JStr unknownType))"
      by (elim processValueTry_SomeD) (simp add: dot_setProp_obj dot_obj)
    from k assms(1) have key: "key = c" by auto
    note tbl = getProp_sensorTypes[OF inh]
    show "(c \<in> set (ownKeys sensorTypes) \<longrightarrow>
               dot (processValue P v) ''type'' = getProp sensorTypes c \<and>
               dot (processValue P v) ''type'' \<noteq> Some (JStr unknownType)) \<and>
            (c \<notin> set (ownKeys sensorTypes) \<longrightarrow>
               dot (processValue P v) ''type'' = Some (JStr unknownType))"
      using ty unfolding pv t key tbl ownKeys_sensorTypes
      by (auto simp: orElse_def unknownType_def js_eq_iff)
  qed
  from a b c show ?thesis by blast
qed

text \<open>Code A of the sample value is typed as temperature.\<close>

theorem type_from_sensorTypes_witness:
  "dot demoValue ''code'' = Some (JStr (js ''A'')) \<and>
   length (js ''A'') = 1 \<and>
   processValueTry demoPlatform demoValue \<noteq> None \<and>
   js ''A'' \<in> set (ownKeys sensorTypes) \<and>
   dot (processValue demoPlatform demoValue) ''type'' = Some (JStr [0x6EAB, 0x5EA6])"
proof -
  have a: "processValueTry demoPlatform demoValue \<noteq> None"
    by (simp add: eval_defs)
  have b: "dot demoValue ''code'' = Some (JStr (js ''A''))"
    by (simp add: demoValue_def dot_obj)
  have c: "length (js ''A'') = 1"
    by (simp add: js_def)
  have d: "js ''A'' \<in> set (ownKeys sensorTypes)"
    by (simp add: ownKeys_sensorTypes)
  have e: "getProp sensorTypes (js ''A'') = Some (JStr [0x6EAB, 0x5EA6])"
    by (simp add: getProp_sensorTypes single_char_not_inherited c)
  from type_from_sensorTypes[OF b c, of demoPlatform] a d e
  have "dot (processValue demoPlatform demoValue) ''type'' = Some (JStr [0x6EAB, 0x5EA6])"
    by simp
  with a b c d show ?thesis by simp
qed

subsection \<open>C7: a cycle without the store\<close>

text \<open>
  Claim C7. When the store service reports not ready, \<open>processSensorData\<close> returns normally
  and leaves the whole service as it was: nothing is handed to the bus client, and the
  counters and the time of the last publication are unchanged.
\<close>

theorem processSensorData_skips_when_store_not_ready:
  assumes "redisService s = Some rs" and "\<not> redisIsReady rs"
  shows "processSensorData P now s = (Inr (), s)"
  using assms by (simp add: processSensorData_def processSensorDataTry_def)

text \<open>A running sample service whose store is not ready.\<close>

theorem processSensorData_skips_when_store_not_ready_witness:
  "redisService (demoService (demoRedis False (Inr None)) (demoMqtt None))
     = Some (demoRedis False (Inr None)) \<and>
   \<not> redisIsReady (demoRedis False (Inr None)) \<and>
   processSensorData demoPlatform demoNow (demoService (demoRedis False (Inr None)) (demoMqtt None))
     = (Inr (), demoService (demoRedis False (Inr None)) (demoMqtt None))"
proof -
  have a: "redisService (demoService (demoRedis False (Inr None)) (demoMqtt None))
             = Some (demoRedis False (Inr None))"
    by (simp add: demoService_def)
  have b: "\<not> redisIsReady (demoRedis False (Inr None))"
    by (simp add: redisIsReady_def demoRedis_def)
  from a b processSensorData_skips_when_store_not_ready[OF a b] show ?thesis by simp
qed

subsection \<open>C8: the timer survives failing cycles\<close>

lemma pollTick_Inr: "fst (pollTick P now s) = Inr ()"
  by (simp add: pollTick_def split: prod.splits sum.splits)

lemma runTimer_all: "fst (runTimer P ticks s) = length ticks"
proof (induction ticks arbitrary: s)
  case Nil
  then show ?case by simp
next
  case (Cons t ticks)
  obtain now outside where t: "t = (now, outside)" by (cases t)
  obtain r s' where p: "pollTick P now (outside s) = (r, s')" by (cases "pollTick P now (outside s)")
  with pollTick_Inr[of P now "outside s"] have r: "r = Inr ()" by simp
  obtain n s'' where q: "runTimer P ticks s' = (n, s'')" by (cases "runTimer P ticks s'")
  with Cons.IH[of s'] have "n = length ticks" by simp
  then show ?case by (simp add: t p r q)
qed

text \<open>
  Claim C8. The callback of the poll timer always returns normally; when
  \<open>processSensorData\<close> throws, the callback adds one to the error counter (on top of the
  one that \<open>processSensorData\<close> added before throwing again); and the timer completes
  every tick of any sequence, whatever the outside does between the ticks.
\<close>

theorem pollTick_survives_errors:
  "fst (pollTick P now s) = Inr () \<and>
   (\<forall>e s'. processSensorData P now s = (Inl e, s') \<longrightarrow>
      snd (pollTick P now s) = s'\<lparr>stats := (stats s')\<lparr>errors := errors (stats s') + 1\<rparr>\<rparr>) \<and>
   fst (runTimer P ticks s) = length ticks"
  by (simp add: pollTick_Inr runTimer_all) (simp add: pollTick_def)

text \<open>A store whose \<open>get\<close> rejects: the cycle fails, the callback returns, three ticks complete.\<close>

theorem pollTick_survives_errors_witness:
  "fst (processSensorData demoPlatform demoNow
          (demoService (demoRedis True (Inl (Error (js ''Connection is closed'')))) (demoMqtt None)))
     = Inl (Error (js ''Connection is closed'')) \<and>
   fst (pollTick demoPlatform demoNow
          (demoService (demoRedis True (Inl (Error (js ''Connection is closed'')))) (demoMqtt None)))
     = Inr () \<and>
   errors (stats (snd (pollTick demoPlatform demoNow
          (demoService (demoRedis True (Inl (Error (js ''Connection is closed'')))) (demoMqtt None)))))
     = 2 \<and>
   fst (runTimer demoPlatform [(demoNow, id), (demoNow, id), (demoNow, id)]
          (demoService (demoRedis True (Inl (Error (js ''Connection is closed'')))) (demoMqtt None)))
     = 3"
proof -
  let ?s = "demoService (demoRedis True (Inl (Error (js ''Connection is closed'')))) (demoMqtt None)"
  let ?s1 = "?s\<lparr>stats := (stats ?s)\<lparr>errors := errors (stats ?s) + 1\<rparr>\<rparr>"
  have p: "processSensorData demoPlatform demoNow ?s = (Inl (Error (js ''Connection is closed'')), ?s1)"
    by (simp add: svc_defs)
  note t = pollTick_survives_errors[of demoPlatform demoNow ?s "[(demoNow, id), (demoNow, id), (demoNow, id)]"]
  from t have a: "fst (pollTick demoPlatform demoNow ?s) = Inr ()" by blast
  from t p have "snd (pollTick demoPlatform demoNow ?s)
                   = ?s1\<lparr>stats := (stats ?s1)\<lparr>errors := errors (stats ?s1) + 1\<rparr>\<rparr>" by blast
  then have b: "errors (stats (snd (pollTick demoPlatform demoNow ?s))) = 2"
    by (simp add: demoService_def)
  from t have c: "fst (runTimer demoPlatform [(demoNow, id), (demoNow, id), (demoNow, id)] ?s) = 3"
    by simp
  from p a b c show ?thesis by simp
qed

subsection \<open>C9: the retry policy\<close>

text \<open>
  Claim C9, as stated, fails at the third halt: on attempt 11, with no error and no time
  spent, \<open>retry_strategy\<close> returns \<open>undefined\<close>, not an error.
\<close>

theorem retry_strategy_attempts_undefined:
  "retry_strategy \<lparr>error = JUndefined, total_retry_time = 0, attempt = 11\<rparr> = RetryUndefined"
  by (simp add: retry_strategy_def)

text \<open>
  Claim C9, amended: \<open>retry_strategy\<close> returns a delay in every case but three, a refused
  connection, more than an hour of retrying, more than 10 attempts. In the first two it
  returns an \<open>Error\<close>; in the third (when neither of the first two holds) it returns
  \<open>undefined\<close>; otherwise the delay is \<open>min(attempt * 100, 3000)\<close>.
\<close>

theorem retry_strategy_cases:
  "((\<exists>d. retry_strategy options = RetryDelay d) \<longleftrightarrow>
      \<not> (refused options \<or> total_retry_time options > 3600000 \<or> attempt options > 10)) \<and>
   (refused options \<or> total_retry_time options > 3600000 \<longrightarrow>
      (\<exists>m. retry_strategy options = RetryError m)) \<and>
   (\<not> refused options \<and> total_retry_time options \<le> 3600000 \<and> attempt options > 10 \<longrightarrow>
      retry_strategy options = RetryUndefined) \<and>
   (\<not> refused options \<and> total_retry_time options \<le> 3600000 \<and> attempt options \<le> 10 \<longrightarrow>
      retry_strategy options = RetryDelay (min (attempt options * 100) 3000))"
  by (auto simp: retry_strategy_def refused_def)

text \<open>One input for each of the four cases.\<close>

theorem retry_strategy_cases_witness:
  "refused \<lparr>error = obj [(''code'', JStr (js ''ECONNREFUSED''))], total_retry_time = 0, attempt = 1\<rparr> \<and>
   retry_strategy \<lparr>error = obj [(''code'', JStr (js ''ECONNREFUSED''))], total_retry_time = 0, attempt = 1\<rparr>
     = RetryError [0x0052, 0x0065, 0x0064, 0x0069, 0x0073, 0x670D, 0x52D9, 0x5668,
                   0x62D2, 0x7D55, 0x9023, 0x63A5] \<and>
   \<not> refused \<lparr>error = JUndefined, total_retry_time = 3600001, attempt = 2\<rparr> \<and>
   retry_strategy \<lparr>error = JUndefined, total_retry_time = 3600001, attempt = 2\<rparr>
     = RetryError [0x0052, 0x0065, 0x0064, 0x0069, 0x0073, 0x91CD, 0x8A66, 0x6642,
                   0x9593, 0x8D85, 0x904E, 0x0031, 0x5C0F, 0x6642] \<and>
   retry_strategy \<lparr>error = JUndefined, total_retry_time = 500, attempt = 11\<rparr> = RetryUndefined \<and>
   retry_strategy \<lparr>error = JUndefined, total_retry_time = 500, attempt = 3\<rparr> = RetryDelay 300"
proof -
  let ?a = "\<lparr>error = obj [(''code'', JStr (js ''ECONNREFUSED''))], total_retry_time = 0, attempt = 1\<rparr>"
  let ?b = "\<lparr>error = JUndefined, total_retry_time = 3600001, attempt = 2\<rparr>"
  let ?c = "\<lparr>error = JUndefined, total_retry_time = 500, attempt = 11\<rparr>"
  let ?d = "\<lparr>error = JUndefined, total_retry_time = 500, attempt = 3\<rparr>"
  have ra: "refused ?a" by (simp add: refused_def dot_obj truthy_obj)
  have rb: "\<not> refused ?b" by (simp add: refused_def)
  have rc: "\<not> refused ?c" by (simp add: refused_def)
  have rd: "\<not> refused ?d" by (simp add: refused_def)
  from retry_strategy_cases[of ?c] rc have c: "retry_strategy ?c = RetryUndefined" by simp
  from retry_strategy_cases[of ?d] rd have d: "retry_strategy ?d = RetryDelay 300" by simp
  have a: "retry_strategy ?a = RetryError [0x0052, 0x0065, 0x0064, 0x0069, 0x0073, 0x670D, 0x52D9, 0x5668,
                   0x62D2, 0x7D55, 0x9023, 0x63A5]"
    using ra by (simp add: retry_strategy_def refused_def)
  have b: "retry_strategy ?b = RetryError [0x0052, 0x0065, 0x0064, 0x0069, 0x0073, 0x91CD, 0x8A66, 0x6642,
                   0x9593, 0x8D85, 0x904E, 0x0031, 0x5C0F, 0x6642]"
    using rb by (simp add: retry_strategy_def refused_def)
  from ra a rb b c d show ?thesis by simp
qed

subsection \<open>C10: what the statistics count\<close>














end
